theory Spec2Isabelle
  imports Complex_Main
begin

section \<open>Numeric containers\<close>

text \<open>
  The controller of \<^verbatim>\<open>balance_controller.cpp\<close> works on Armadillo's dynamically sized
  \<^verbatim>\<open>vec\<close> and \<^verbatim>\<open>mat\<close> of doubles and on raw \<^verbatim>\<open>real_t\<close> arrays handed to qpOASES.
  A vector is a list, a matrix the list of its rows, a raw array a list of its cells.
  Scalars are the reals: every statement below is about the arithmetic the code writes
  down, read exactly, and says nothing about rounding.

  Armadillo checks the shapes of its operands and raises \<^verbatim>\<open>std::logic_error\<close> on a
  mismatch. The library operations below are the mathematical ones; statements about them
  carry the shapes of their operands as hypotheses. The one shape that depends on the
  configuration (the row window of the bound loop, which moves with the number of leg
  names) is checked in the model, as the library does.
\<close>

type_synonym real_t = real
type_synonym vec = "real list"
type_synonym mat = "real list list"

definition is_mat :: "nat \<Rightarrow> nat \<Rightarrow> mat \<Rightarrow> bool" where
  "is_mat r c M = (length M = r \<and> list_all (\<lambda>row. length row = c) M)"

definition n_rows :: "mat \<Rightarrow> nat" where
  "n_rows M = length M"

definition n_cols :: "mat \<Rightarrow> nat" where
  "n_cols M = (case M of [] \<Rightarrow> 0 | row # _ \<Rightarrow> length row)"

definition zeros_vec :: "nat \<Rightarrow> vec" where
  "zeros_vec n = replicate n 0"

definition zeros_mat :: "nat \<Rightarrow> nat \<Rightarrow> mat" where
  "zeros_mat r c = replicate r (replicate c 0)"

definition eye :: "nat \<Rightarrow> nat \<Rightarrow> mat" where
  "eye r c = map (\<lambda>i. map (\<lambda>j. if i = j then 1 else 0) [0..<c]) [0..<r]"

definition col :: "mat \<Rightarrow> nat \<Rightarrow> vec" where
  "col M j = map (\<lambda>row. row ! j) M"

definition mat_t :: "mat \<Rightarrow> mat" where
  "mat_t M = map (col M) [0..<n_cols M]"

definition dot :: "vec \<Rightarrow> vec \<Rightarrow> real" where
  "dot u v = sum_list (map2 (*) u v)"

definition mat_mul :: "mat \<Rightarrow> mat \<Rightarrow> mat" where
  "mat_mul A B = map (\<lambda>row. map (\<lambda>j. dot row (col B j)) [0..<n_cols B]) A"

definition mat_vec :: "mat \<Rightarrow> vec \<Rightarrow> vec" where
  "mat_vec A v = map (\<lambda>row. dot row v) A"

definition vec_scale :: "real \<Rightarrow> vec \<Rightarrow> vec" where
  "vec_scale s v = map (\<lambda>a. s * a) v"

definition mat_scale :: "real \<Rightarrow> mat \<Rightarrow> mat" where
  "mat_scale s M = map (vec_scale s) M"

definition vec_add :: "vec \<Rightarrow> vec \<Rightarrow> vec" where
  "vec_add u v = map2 (+) u v"

definition vec_sub :: "vec \<Rightarrow> vec \<Rightarrow> vec" where
  "vec_sub u v = map2 (-) u v"

definition schur :: "vec \<Rightarrow> vec \<Rightarrow> vec" where
  \<comment> \<open>Armadillo's \<^verbatim>\<open>%\<close>: the element-wise product.\<close>
  "schur u v = map2 (*) u v"

definition mat_add :: "mat \<Rightarrow> mat \<Rightarrow> mat" where
  "mat_add A B = map2 vec_add A B"

definition rows_get :: "vec \<Rightarrow> nat \<Rightarrow> nat \<Rightarrow> vec" where
  \<comment> \<open>\<^verbatim>\<open>v.rows(a, b)\<close> read: the entries \<open>a..b\<close>, both ends included.\<close>
  "rows_get v a b = map (\<lambda>i. v ! i) [a..<Suc b]"

definition rows_in_bounds :: "vec \<Rightarrow> nat \<Rightarrow> nat \<Rightarrow> bool" where
  \<comment> \<open>The check \<^verbatim>\<open>rows(a, b)\<close> makes before it hands out the window.\<close>
  "rows_in_bounds v a b = (a \<le> b \<and> b < length v)"

definition rows_assign :: "vec \<Rightarrow> nat \<Rightarrow> nat \<Rightarrow> vec \<Rightarrow> vec" where
  \<comment> \<open>\<^verbatim>\<open>v.rows(a, b) = x\<close>: the window is overwritten, the rest is kept.\<close>
  "rows_assign v a b x =
     map (\<lambda>i. if a \<le> i \<and> i \<le> b then x ! (i - a) else v ! i) [0..<length v]"

definition rows_zeros :: "vec \<Rightarrow> nat \<Rightarrow> nat \<Rightarrow> vec" where
  \<comment> \<open>\<^verbatim>\<open>v.rows(a, b).zeros()\<close>.\<close>
  "rows_zeros v a b = map (\<lambda>i. if a \<le> i \<and> i \<le> b then 0 else v ! i) [0..<length v]"

definition submat_assign :: "mat \<Rightarrow> nat \<Rightarrow> nat \<Rightarrow> nat \<Rightarrow> nat \<Rightarrow> mat \<Rightarrow> mat" where
  \<comment> \<open>\<^verbatim>\<open>M.submat(r1, c1, r2, c2) = B\<close>: first row, first column, last row, last column.\<close>
  "submat_assign M r1 c1 r2 c2 B =
     map (\<lambda>i. map (\<lambda>j. if r1 \<le> i \<and> i \<le> r2 \<and> c1 \<le> j \<and> j \<le> c2
                          then B ! (i - r1) ! (j - c1) else M ! i ! j)
                 [0..<n_cols M])
         [0..<n_rows M]"

definition col_assign :: "mat \<Rightarrow> nat \<Rightarrow> vec \<Rightarrow> mat" where
  \<comment> \<open>\<^verbatim>\<open>M.col(j) = x\<close>.\<close>
  "col_assign M j x =
     map (\<lambda>i. map (\<lambda>k. if k = j then x ! i else M ! i ! k) [0..<n_cols M]) [0..<n_rows M]"

definition uninitialised_vec :: "(nat \<Rightarrow> real) \<Rightarrow> nat \<Rightarrow> vec" where
  \<comment> \<open>\<^verbatim>\<open>vec v(n)\<close> and a raw array of \<open>n\<close> cells before the first write: the cells hold
      whatever the memory held, given by \<open>mem\<close>.\<close>
  "uninitialised_vec mem n = map mem [0..<n]"

definition uninitialised_mat :: "(nat \<Rightarrow> real) \<Rightarrow> nat \<Rightarrow> nat \<Rightarrow> mat" where
  "uninitialised_mat mem r c = map (\<lambda>i. map (\<lambda>j. mem (i * c + j)) [0..<c]) [0..<r]"

section \<open>The raw-array helpers\<close>

text \<open>
  \<^verbatim>\<open>copy_to_real_t(const vec&, real_t*)\<close> (lines 22-28) writes cell \<open>i\<close> of the target for
  every index of the source; the matrix overload (lines 30-41) walks the rows and counts
  the target cell up, so the target is the matrix row by row.
  \<^verbatim>\<open>copy_from_real_t\<close> (lines 43-52) reads the first \<open>n_rows\<close> cells.
\<close>

definition copy_to_real_t :: "vec \<Rightarrow> real_t list \<Rightarrow> real_t list" where
  "copy_to_real_t source target =
     foldl (\<lambda>t i. t[i := source ! i]) target [0..<length source]"

definition copy_to_real_t_mat :: "mat \<Rightarrow> real_t list \<Rightarrow> real_t list" where
  "copy_to_real_t_mat source target =
     snd (foldl (\<lambda>(count, t) i.
                   foldl (\<lambda>(count, t) j. (Suc count, t[count := source ! i ! j]))
                         (count, t) [0..<n_cols source])
                (0, target) [0..<n_rows source])"

definition copy_from_real_t :: "real_t list \<Rightarrow> nat \<Rightarrow> vec" where
  "copy_from_real_t source n = map (\<lambda>i. source ! i) [0..<n]"

section \<open>Data model\<close>

text \<open>
  Modelled from the spec: the header \<^verbatim>\<open>balance_controller.hpp\<close> and the gait types are not
  among the sources. The spec fixes the sizes (12 variables, 20 constraints, 6 dynamics
  equations) and names the two contact states; \<open>unlisted\<close> stands for any other value the
  enumeration type can hold. A schedule entry pairs the state with a payload the
  controller never reads.
\<close>

definition num_variables_qp :: nat where
  "num_variables_qp = 12"

definition num_constraints_qp :: nat where
  "num_constraints_qp = 20"

definition num_equations_qp :: nat where
  "num_equations_qp = 6"

datatype LegState = swing | stance | unlisted nat

type_synonym 'p GaitMap = "string \<rightharpoonup> LegState \<times> 'p"

datatype error =
    OutOfRange \<comment> \<open>\<^verbatim>\<open>std::out_of_range\<close> of \<^verbatim>\<open>GaitMap::at\<close>\<close>
  | LogicError \<comment> \<open>\<^verbatim>\<open>std::logic_error\<close> of an Armadillo bounds check\<close>

text \<open>
  qpOASES is a collaborator behind its interface: its state is a type parameter, its
  operations are functions on it. \<^verbatim>\<open>init\<close> and \<^verbatim>\<open>hotstart\<close> take the same argument list;
  the two variable-bound pointers may be null. \<^verbatim>\<open>Rotation3d\<close> is a class of the
  repository's math library that is not among the sources: building it from a matrix and
  asking for \<^verbatim>\<open>angleAxisTotal()\<close> is one more operation of the environment.
  \<open>getPrimalSolution\<close> gives the cells the solver writes into the array it is handed;
  its return value is ignored by the caller.
\<close>

datatype returnValue = SUCCESSFUL_RETURN | RET_FAILED nat

record qp_args =
  arg_H :: "real_t list"
  arg_g :: "real_t list"
  arg_A :: "real_t list"
  arg_lb :: "real_t list option"
  arg_ub :: "real_t list option"
  arg_lbA :: "real_t list"
  arg_ubA :: "real_t list"
  arg_nWSR :: int
  arg_cputime :: real

record 's environment =
  SQProblem :: "nat \<Rightarrow> nat \<Rightarrow> 's"
  setPrintLevel_none :: "'s \<Rightarrow> 's"
  isInitialised :: "'s \<Rightarrow> bool"
  init :: "'s \<Rightarrow> qp_args \<Rightarrow> returnValue \<times> 's"
  hotstart :: "'s \<Rightarrow> qp_args \<Rightarrow> returnValue \<times> 's"
  isSolved :: "'s \<Rightarrow> bool"
  getPrimalSolution :: "'s \<Rightarrow> real_t list"
  angleAxisTotal :: "mat \<Rightarrow> vec"

text \<open>
  The members of \<^verbatim>\<open>BalanceController\<close>, in the order of the constructor's initialiser
  list, then the raw arrays the const methods write. A member \<^verbatim>\<open>name_\<close> is the field
  \<open>name_m\<close>. \<open>ros_errors\<close> is not a member: it collects what \<^verbatim>\<open>ROS_ERROR_STREAM_NAMED\<close>
  printed.
\<close>

record 's BalanceController =
  mu_m :: real
  mass_m :: real
  Ib_m :: mat
  g_m :: vec
  kff_m :: vec
  kp_p_m :: vec
  kd_p_m :: vec
  kp_w_m :: vec
  kd_w_m :: vec
  QPSolver_m :: 's
  nWSR_m :: int
  fzmin_m :: real
  fzmax_m :: real
  S_m :: mat
  W_m :: mat
  C_m :: mat
  cpu_time_m :: real
  leg_names_m :: "string list"
  qp_Q_m :: "real_t list"
  qp_c_m :: "real_t list"
  qp_C_m :: "real_t list"
  qp_lbC_m :: "real_t list"
  qp_ubC_m :: "real_t list"
  ros_errors :: "string list"

text \<open>
  Four locals are declared with a size and no fill (\<^verbatim>\<open>vec lbC(n)\<close>, \<^verbatim>\<open>vec ubC(n)\<close>,
  \<^verbatim>\<open>mat com_ft_p(3, 4)\<close>, \<^verbatim>\<open>vec fb(n)\<close>), and the constructor leaves the raw arrays
  unwritten. What such cells hold before their first write is an input of the model.
\<close>

record indeterminate =
  mem_lbC :: "nat \<Rightarrow> real"
  mem_ubC :: "nat \<Rightarrow> real"
  mem_com_ft_p :: "nat \<Rightarrow> real"
  mem_fb :: "nat \<Rightarrow> real"
  mem_qp :: "nat \<Rightarrow> real"

section \<open>Friction cone\<close>

text \<open>\<^verbatim>\<open>BalanceController::frictionConeConstraint\<close>, lines 240-258.\<close>

definition Cf :: "real \<Rightarrow> mat" where
  "Cf mu = [[1, 0, - mu],
            [0, 1, - mu],
            [0, 1, mu],
            [1, 0, mu],
            [0, 0, 1]]"

definition frictionConeConstraint :: "real \<Rightarrow> mat" where
  "frictionConeConstraint mu =
     (let C0 = zeros_mat num_constraints_qp num_variables_qp;
          C1 = submat_assign C0 0 0 4 2 (Cf mu);
          C2 = submat_assign C1 5 3 9 5 (Cf mu);
          C3 = submat_assign C2 10 6 14 8 (Cf mu);
          C4 = submat_assign C3 15 9 19 11 (Cf mu)
      in C4)"

text \<open>
  \<^verbatim>\<open>BalanceController::frictionConeBounds\<close>, lines 260-306. The loop (lines 276-291) looks
  the leg up with \<^verbatim>\<open>at\<close>, which throws on a missing key, before it touches the window;
  the window is checked by Armadillo when it is taken. Only after the loop are the three
  raw arrays written (lines 303-305), so an exception leaves them as they were.
\<close>

fun bounds_loop ::
  "vec \<Rightarrow> vec \<Rightarrow> 'p GaitMap \<Rightarrow> string list \<Rightarrow> nat \<Rightarrow> nat \<Rightarrow> vec \<Rightarrow> vec \<Rightarrow> error + vec \<times> vec"
where
  "bounds_loop lbf ubf gait_map [] row_start row_end lbC ubC = Inr (lbC, ubC)"
| "bounds_loop lbf ubf gait_map (leg_name # rest) row_start row_end lbC ubC =
     (case gait_map leg_name of
        None \<Rightarrow> Inl OutOfRange
      | Some entry \<Rightarrow>
          if fst entry = swing then
            (if \<not> rows_in_bounds lbC row_start row_end then Inl LogicError
             else if \<not> rows_in_bounds ubC row_start row_end then Inl LogicError
             else bounds_loop lbf ubf gait_map rest (row_start + 5) (row_end + 5)
                    (rows_zeros lbC row_start row_end) (rows_zeros ubC row_start row_end))
          else
            (if \<not> rows_in_bounds lbC row_start row_end then Inl LogicError
             else if \<not> rows_in_bounds ubC row_start row_end then Inl LogicError
             else bounds_loop lbf ubf gait_map rest (row_start + 5) (row_end + 5)
                    (rows_assign lbC row_start row_end lbf)
                    (rows_assign ubC row_start row_end ubf)))"

definition frictionConeBounds ::
  "'s BalanceController \<Rightarrow> indeterminate \<Rightarrow> 'p GaitMap
     \<Rightarrow> (error + unit) \<times> 's BalanceController"
where
  "frictionConeBounds this junk gait_map =
     (let upper = 1000000;
          lower = - 1000000;
          lbf = [lower, lower, 0, 0, fzmin_m this];
          ubf = [0, 0, upper, upper, fzmax_m this];
          lbC = uninitialised_vec (mem_lbC junk) num_constraints_qp;
          ubC = uninitialised_vec (mem_ubC junk) num_constraints_qp
      in case bounds_loop lbf ubf gait_map (leg_names_m this) 0 4 lbC ubC of
           Inl e \<Rightarrow> (Inl e, this)
         | Inr (lbC', ubC') \<Rightarrow>
             (Inr (),
              this\<lparr>qp_C_m := copy_to_real_t_mat (C_m this) (qp_C_m this),
                   qp_lbC_m := copy_to_real_t lbC' (qp_lbC_m this),
                   qp_ubC_m := copy_to_real_t ubC' (qp_ubC_m this)\<rparr>))"

section \<open>Construction\<close>

text \<open>
  \<^verbatim>\<open>BalanceController::BalanceController\<close>, lines 70-96. The constraint matrix is the value
  of \<open>frictionConeConstraint\<close> at the friction coefficient; the solver is built for the
  two sizes and silenced.

  Modelled from the spec: the raw arrays are members declared in the header, which is not
  among the sources. They have the sizes the spec gives for the solver's buffers (12 by
  12, 12, 20 by 12, 20 and 20 cells) and are not written here.
\<close>

definition new_BalanceController ::
  "'s environment \<Rightarrow> indeterminate \<Rightarrow> real \<Rightarrow> real \<Rightarrow> real \<Rightarrow> real \<Rightarrow> mat \<Rightarrow> mat \<Rightarrow> mat
     \<Rightarrow> vec \<Rightarrow> vec \<Rightarrow> vec \<Rightarrow> vec \<Rightarrow> vec \<Rightarrow> string list \<Rightarrow> 's BalanceController"
where
  "new_BalanceController env junk mu mass fzmin fzmax Ib S W kff kp_p kd_p kp_w kd_w leg_names =
     \<lparr>mu_m = mu,
      mass_m = mass,
      Ib_m = Ib,
      g_m = [0, 0, - 981 / 100],
      kff_m = kff,
      kp_p_m = kp_p,
      kd_p_m = kd_p,
      kp_w_m = kp_w,
      kd_w_m = kd_w,
      QPSolver_m = setPrintLevel_none env (SQProblem env num_variables_qp num_constraints_qp),
      nWSR_m = 200,
      fzmin_m = fzmin,
      fzmax_m = fzmax,
      S_m = S,
      W_m = W,
      C_m = frictionConeConstraint mu,
      cpu_time_m = 1 / 1000,
      leg_names_m = leg_names,
      qp_Q_m = uninitialised_vec (mem_qp junk) (num_variables_qp * num_variables_qp),
      qp_c_m = uninitialised_vec (mem_qp junk) num_variables_qp,
      qp_C_m = uninitialised_vec (mem_qp junk) (num_constraints_qp * num_variables_qp),
      qp_lbC_m = uninitialised_vec (mem_qp junk) num_constraints_qp,
      qp_ubC_m = uninitialised_vec (mem_qp junk) num_constraints_qp,
      ros_errors = []\<rparr>"

section \<open>Feedback law and rigid-body dynamics\<close>

text \<open>
  Lines 109-123 of \<^verbatim>\<open>control\<close>: the PD law on position and orientation with its
  feed-forward terms. It reads the gains and the mass, never the raw arrays or the solver.
\<close>

definition desired_accelerations ::
  "'s environment \<Rightarrow> 's BalanceController \<Rightarrow> mat \<Rightarrow> mat \<Rightarrow> vec \<Rightarrow> vec \<Rightarrow> vec \<Rightarrow> vec \<Rightarrow> vec \<Rightarrow> vec
     \<Rightarrow> vec \<times> vec"
where
  "desired_accelerations env this Rwb Rwb_d x xdot w x_d xdot_d w_d =
     (let xddot_d0 = vec_add (schur (kp_p_m this) (vec_sub x_d x))
                             (schur (kd_p_m this) (vec_sub xdot_d xdot));
          xddot_d1 = xddot_d0[0 := xddot_d0 ! 0 + kff_m this ! 0 * xdot_d ! 0];
          xddot_d2 = xddot_d1[1 := xddot_d1 ! 1 + kff_m this ! 1 * xdot_d ! 1];
          xddot_d3 = xddot_d2[2 := xddot_d2 ! 2 + kff_m this ! 2 * mass_m this * (981 / 100)];
          R_error = mat_mul Rwb_d (mat_t Rwb);
          wdot_d0 = vec_add (schur (kp_w_m this) (angleAxisTotal env R_error))
                            (schur (kd_w_m this) (vec_sub w_d w));
          wdot_d1 = vec_add wdot_d0 (schur (rows_get (kff_m this) 3 5) w_d)
      in (xddot_d3, wdot_d1))"

text \<open>
  Modelled from the spec: \<^verbatim>\<open>skew_symmetric\<close> belongs to the repository's math library,
  which is not among the sources. The spec calls it the skew-symmetric cross-product
  matrix of a 3-vector: the matrix whose product with \<open>f\<close> is the cross product of the
  vector with \<open>f\<close>.
\<close>

definition skew_symmetric :: "vec \<Rightarrow> mat" where
  "skew_symmetric v = [[0, - (v ! 2), v ! 1],
                       [v ! 2, 0, - (v ! 0)],
                       [- (v ! 1), v ! 0, 0]]"

text \<open>\<^verbatim>\<open>BalanceController::dynamics\<close>, lines 206-237.\<close>

definition dynamics ::
  "'s BalanceController \<Rightarrow> indeterminate \<Rightarrow> mat \<Rightarrow> mat \<Rightarrow> vec \<Rightarrow> vec \<Rightarrow> vec \<Rightarrow> mat \<times> vec"
where
  "dynamics this junk ft_p Rwb x xddot_d wdot_d =
     (let com0 = uninitialised_mat (mem_com_ft_p junk) 3 4;
          com1 = col_assign com0 0 (mat_vec Rwb (col ft_p 0));
          com2 = col_assign com1 1 (mat_vec Rwb (col ft_p 1));
          com3 = col_assign com2 2 (mat_vec Rwb (col ft_p 2));
          com_ft_p = col_assign com3 3 (mat_vec Rwb (col ft_p 3));
          Iw = mat_mul (mat_mul Rwb (Ib_m this)) (mat_t Rwb);
          A0 = zeros_mat num_equations_qp num_variables_qp;
          A1 = submat_assign A0 0 0 2 2 (eye 3 3);
          A2 = submat_assign A1 0 3 2 5 (eye 3 3);
          A3 = submat_assign A2 0 6 2 8 (eye 3 3);
          A4 = submat_assign A3 0 9 2 11 (eye 3 3);
          A5 = submat_assign A4 3 0 5 2 (skew_symmetric (col com_ft_p 0));
          A6 = submat_assign A5 3 3 5 5 (skew_symmetric (col com_ft_p 1));
          A7 = submat_assign A6 3 6 5 8 (skew_symmetric (col com_ft_p 2));
          A8 = submat_assign A7 3 9 5 11 (skew_symmetric (col com_ft_p 3));
          b0 = zeros_vec num_equations_qp;
          b1 = rows_assign b0 0 2 (vec_scale (mass_m this) (vec_add xddot_d (g_m this)));
          b2 = rows_assign b1 3 5 (mat_vec Iw wdot_d)
      in (A8, b2))"

section \<open>The control cycle\<close>

text \<open>
  Lines 134-135: the cost of the quadratic program. The source writes
  \<^verbatim>\<open>-2.0 * A_dyn.t() * S_ * b_dyn\<close>, which associates to the left.
\<close>

definition qp_cost :: "'s BalanceController \<Rightarrow> mat \<Rightarrow> vec \<Rightarrow> mat \<times> vec" where
  "qp_cost this A_dyn b_dyn =
     (let Q = mat_scale 2 (mat_add (mat_mul (mat_mul (mat_t A_dyn) (S_m this)) A_dyn) (W_m this));
          c = mat_vec (mat_mul (mat_scale (- 2) (mat_t A_dyn)) (S_m this)) b_dyn
      in (Q, c))"

text \<open>
  Lines 142-150 and the two call sites (156-157 and 170-171): both calls pass the same
  nine arguments, the two variable-bound pointers being null.
\<close>

definition qp_arguments :: "'s BalanceController \<Rightarrow> qp_args" where
  "qp_arguments this =
     \<lparr>arg_H = qp_Q_m this,
      arg_g = qp_c_m this,
      arg_A = qp_C_m this,
      arg_lb = None,
      arg_ub = None,
      arg_lbA = qp_lbC_m this,
      arg_ubA = qp_ubC_m this,
      arg_nWSR = nWSR_m this,
      arg_cputime = cpu_time_m this\<rparr>"

text \<open>Lines 194-203: each foot's block is rotated by the transpose, the whole is negated.\<close>

definition body_frame_forces :: "indeterminate \<Rightarrow> mat \<Rightarrow> vec \<Rightarrow> vec" where
  "body_frame_forces junk Rwb fw =
     (let Rbw = mat_t Rwb;
          fb0 = uninitialised_vec (mem_fb junk) num_variables_qp;
          fb1 = rows_assign fb0 0 2 (mat_vec Rbw (rows_get fw 0 2));
          fb2 = rows_assign fb1 3 5 (mat_vec Rbw (rows_get fw 3 5));
          fb3 = rows_assign fb2 6 8 (mat_vec Rbw (rows_get fw 6 8));
          fb4 = rows_assign fb3 9 11 (mat_vec Rbw (rows_get fw 9 11))
      in vec_scale (- 1) fb4)"

text \<open>Lines 180-203: what follows a successful \<^verbatim>\<open>init\<close> or \<^verbatim>\<open>hotstart\<close>.\<close>

definition extract_solution ::
  "'s environment \<Rightarrow> 's BalanceController \<Rightarrow> indeterminate \<Rightarrow> mat \<Rightarrow> vec
     \<Rightarrow> (error + vec) \<times> 's BalanceController"
where
  "extract_solution env this junk Rwb fw0 =
     (if isSolved env (QPSolver_m this) then
        (let qp_xOpt = getPrimalSolution env (QPSolver_m this);
             fw = copy_from_real_t qp_xOpt num_variables_qp
         in (Inr (body_frame_forces junk Rwb fw), this))
      else
        (Inr fw0,
         this\<lparr>ros_errors := ros_errors this @ [''Balance Controller QP Solver Failed'']\<rparr>))"

text \<open>
  \<^verbatim>\<open>BalanceController::control\<close>, lines 98-204. An exception of the bound builder leaves
  the function at line 104; the three solver failures return the zero vector \<open>fw\<close> of
  line 107.
\<close>

definition control ::
  "'s environment \<Rightarrow> 's BalanceController \<Rightarrow> indeterminate
     \<Rightarrow> mat \<Rightarrow> mat \<Rightarrow> mat \<Rightarrow> vec \<Rightarrow> vec \<Rightarrow> vec \<Rightarrow> vec \<Rightarrow> vec \<Rightarrow> vec \<Rightarrow> 'p GaitMap
     \<Rightarrow> (error + vec) \<times> 's BalanceController"
where
  "control env this junk ft_p Rwb Rwb_d x xdot w x_d xdot_d w_d gait_map =
     (case frictionConeBounds this junk gait_map of
        (Inl e, this1) \<Rightarrow> (Inl e, this1)
      | (Inr _, this1) \<Rightarrow>
          (let fw = zeros_vec num_variables_qp;
               (xddot_d, wdot_d) =
                  desired_accelerations env this1 Rwb Rwb_d x xdot w x_d xdot_d w_d;
               (A_dyn, b_dyn) = dynamics this1 junk ft_p Rwb x xddot_d wdot_d;
               (Q, c) = qp_cost this1 A_dyn b_dyn;
               this2 = this1\<lparr>qp_Q_m := copy_to_real_t_mat Q (qp_Q_m this1),
                              qp_c_m := copy_to_real_t c (qp_c_m this1)\<rparr>
           in if \<not> isInitialised env (QPSolver_m this2) then
                (case init env (QPSolver_m this2) (qp_arguments this2) of
                   (ret_val, solver) \<Rightarrow>
                     if ret_val \<noteq> SUCCESSFUL_RETURN then
                       (Inr fw,
                        this2\<lparr>QPSolver_m := solver,
                              ros_errors := ros_errors this2 @
                                [''Failed to initialize Balance Controller QP Solver'']\<rparr>)
                     else extract_solution env (this2\<lparr>QPSolver_m := solver\<rparr>) junk Rwb fw)
              else
                (case hotstart env (QPSolver_m this2) (qp_arguments this2) of
                   (ret_val, solver) \<Rightarrow>
                     if ret_val \<noteq> SUCCESSFUL_RETURN then
                       (Inr fw,
                        this2\<lparr>QPSolver_m := solver,
                              ros_errors := ros_errors this2 @
                                [''Failed to hotstart Balance Controller QP Solver'']\<rparr>)
                     else extract_solution env (this2\<lparr>QPSolver_m := solver\<rparr>) junk Rwb fw)))"

text \<open>
  For the statements below: the controller as it stands at line 139, when the bounds, the
  cost matrix and the cost vector are in the raw arrays and the solver has not been
  called yet, and the call of lines 154-178, \<^verbatim>\<open>init\<close> on a fresh solver and
  \<^verbatim>\<open>hotstart\<close> afterwards. That \<open>control\<close> passes through this state and makes this
  call is \<open>control_via_formulate\<close>.
\<close>

definition formulate ::
  "'s environment \<Rightarrow> 's BalanceController \<Rightarrow> indeterminate
     \<Rightarrow> mat \<Rightarrow> mat \<Rightarrow> mat \<Rightarrow> vec \<Rightarrow> vec \<Rightarrow> vec \<Rightarrow> vec \<Rightarrow> vec \<Rightarrow> vec \<Rightarrow> 'p GaitMap
     \<Rightarrow> (error + unit) \<times> 's BalanceController"
where
  "formulate env this junk ft_p Rwb Rwb_d x xdot w x_d xdot_d w_d gait_map =
     (case frictionConeBounds this junk gait_map of
        (Inl e, this1) \<Rightarrow> (Inl e, this1)
      | (Inr _, this1) \<Rightarrow>
          (let (xddot_d, wdot_d) =
                  desired_accelerations env this1 Rwb Rwb_d x xdot w x_d xdot_d w_d;
               (A_dyn, b_dyn) = dynamics this1 junk ft_p Rwb x xddot_d wdot_d;
               (Q, c) = qp_cost this1 A_dyn b_dyn
           in (Inr (),
               this1\<lparr>qp_Q_m := copy_to_real_t_mat Q (qp_Q_m this1),
                      qp_c_m := copy_to_real_t c (qp_c_m this1)\<rparr>)))"

definition solver_call :: "'s environment \<Rightarrow> 's BalanceController \<Rightarrow> returnValue \<times> 's" where
  "solver_call env this =
     (if \<not> isInitialised env (QPSolver_m this)
      then init env (QPSolver_m this) (qp_arguments this)
      else hotstart env (QPSolver_m this) (qp_arguments this))"

text \<open>The Euclidean norm of a vector, for the statement about the frame change.\<close>

definition vec_norm :: "vec \<Rightarrow> real" where
  "vec_norm v = sqrt (dot v v)"

section \<open>Well-formed instances and test doubles\<close>

text \<open>
  The raw arrays have the sizes of the solver's buffers; a controller built by the
  constructor has them. The stub environment answers every solver call with fixed values,
  and the example controller is the four-legged configuration of the spec's scenarios.
\<close>

definition buffers_sized :: "'s BalanceController \<Rightarrow> bool" where
  "buffers_sized this =
     (length (qp_Q_m this) = num_variables_qp * num_variables_qp \<and>
      length (qp_c_m this) = num_variables_qp \<and>
      length (qp_C_m this) = num_constraints_qp * num_variables_qp \<and>
      length (qp_lbC_m this) = num_constraints_qp \<and>
      length (qp_ubC_m this) = num_constraints_qp)"

definition stub_environment ::
  "returnValue \<Rightarrow> returnValue \<Rightarrow> bool \<Rightarrow> real_t list \<Rightarrow> bool environment" where
  "stub_environment r_init r_hot solved xOpt =
     \<lparr>SQProblem = (\<lambda>nV nC. False),
      setPrintLevel_none = (\<lambda>s. s),
      isInitialised = (\<lambda>s. s),
      init = (\<lambda>s a. (r_init, True)),
      hotstart = (\<lambda>s a. (r_hot, True)),
      isSolved = (\<lambda>s. solved),
      getPrimalSolution = (\<lambda>s. xOpt),
      angleAxisTotal = (\<lambda>R. [R ! 2 ! 1 - R ! 1 ! 2, R ! 0 ! 2 - R ! 2 ! 0, R ! 1 ! 0 - R ! 0 ! 1])\<rparr>"

definition example_junk :: indeterminate where
  "example_junk = \<lparr>mem_lbC = (\<lambda>i. 7), mem_ubC = (\<lambda>i. - 7), mem_com_ft_p = (\<lambda>i. 3),
                    mem_fb = (\<lambda>i. 5), mem_qp = (\<lambda>i. real i)\<rparr>"

definition example_controller :: "bool environment \<Rightarrow> bool BalanceController" where
  "example_controller env =
     new_BalanceController env example_junk (6 / 10) 10 10 500
       (eye 3 3) (eye 6 6) (mat_scale (1 / 100) (eye 12 12))
       [1, 1, 1, 1, 1, 1] [2, 2, 2] [3, 3, 3] [4, 4, 4] [5, 5, 5]
       [''RL'', ''FL'', ''RR'', ''FR'']"

definition example_gait :: "unit GaitMap" where
  "example_gait = [''FL'' \<mapsto> (stance, ()), ''FR'' \<mapsto> (swing, ()),
                   ''RL'' \<mapsto> (unlisted 2, ()), ''RR'' \<mapsto> (stance, ())]"

definition example_env :: "bool environment" where
  "example_env = stub_environment SUCCESSFUL_RETURN SUCCESSFUL_RETURN True
                   [1, 2, 3, 4, 5, 6, 7, 8, 9, 10, 11, 12]"

definition example_gait_missing :: "unit GaitMap" where
  "example_gait_missing = [''FL'' \<mapsto> (stance, ()), ''RL'' \<mapsto> (swing, ()), ''RR'' \<mapsto> (stance, ())]"

definition example_ft_p :: mat where
  "example_ft_p = [[- 2, 2, - 2, 2],
                   [1, 1, - 1, - 1],
                   [- 3, - 3, - 3, - 3]]"

definition example_Rwb :: mat where
  "example_Rwb = [[0, - 1, 0],
                  [1, 0, 0],
                  [0, 0, 1]]"

definition example_solution :: "real_t list" where
  "example_solution = [1, 2, 3, 4, 5, 6, 7, 8, 9, 10, 11, 12]"

section \<open>Facts about the containers\<close>

lemma is_mat_nth_length: "is_mat r c M \<Longrightarrow> i < r \<Longrightarrow> length (M ! i) = c"
  by (auto simp: is_mat_def list_all_length)

lemma is_mat_n_cols: "is_mat r c M \<Longrightarrow> 0 < r \<Longrightarrow> n_cols M = c"
  by (cases M) (auto simp: is_mat_def n_cols_def)

lemma is_mat_n_rows: "is_mat r c M \<Longrightarrow> n_rows M = r"
  by (simp add: is_mat_def n_rows_def)

lemma is_mat_zeros_mat: "is_mat r c (zeros_mat r c)"
  by (simp add: is_mat_def zeros_mat_def list_all_length)

lemma zeros_mat_nth: "i < r \<Longrightarrow> j < c \<Longrightarrow> zeros_mat r c ! i ! j = 0"
  by (simp add: zeros_mat_def)

lemma is_mat_submat_assign:
  "is_mat r c M \<Longrightarrow> 0 < r \<Longrightarrow> is_mat r c (submat_assign M r1 c1 r2 c2 B)"
  by (simp add: submat_assign_def is_mat_n_cols is_mat_n_rows)
     (simp add: is_mat_def list_all_length)

lemma submat_assign_nth:
  "is_mat r c M \<Longrightarrow> i < r \<Longrightarrow> j < c \<Longrightarrow>
   submat_assign M r1 c1 r2 c2 B ! i ! j =
     (if r1 \<le> i \<and> i \<le> r2 \<and> c1 \<le> j \<and> j \<le> c2 then B ! (i - r1) ! (j - c1) else M ! i ! j)"
  by (simp add: submat_assign_def is_mat_n_cols is_mat_n_rows)

subsection \<open>Entries of the constraint matrix\<close>

lemma is_mat_frictionConeConstraint: "is_mat 20 12 (frictionConeConstraint mu)"
  by (simp add: frictionConeConstraint_def Let_def num_constraints_qp_def num_variables_qp_def
      is_mat_submat_assign is_mat_zeros_mat)

lemma frictionConeConstraint_nth:
  assumes "i < 20" "j < 12"
  shows "frictionConeConstraint mu ! i ! j =
     (if 15 \<le> i \<and> 9 \<le> j then Cf mu ! (i - 15) ! (j - 9)
      else if 10 \<le> i \<and> i \<le> 14 \<and> 6 \<le> j \<and> j \<le> 8 then Cf mu ! (i - 10) ! (j - 6)
      else if 5 \<le> i \<and> i \<le> 9 \<and> 3 \<le> j \<and> j \<le> 5 then Cf mu ! (i - 5) ! (j - 3)
      else if i \<le> 4 \<and> j \<le> 2 then Cf mu ! i ! j
      else 0)"
  using assms
  by (simp add: frictionConeConstraint_def Let_def num_constraints_qp_def num_variables_qp_def
      submat_assign_nth [where r = 20 and c = 12] is_mat_submat_assign is_mat_zeros_mat
      zeros_mat_nth)

subsection \<open>Raw arrays and row windows\<close>

lemma copy_to_real_t_prefix:
  "n \<le> length source \<Longrightarrow> n \<le> length target \<Longrightarrow>
   foldl (\<lambda>t i. t[i := source ! i]) target [0..<n] = take n source @ drop n target"
proof (induction n)
  case 0
  then show ?case by simp
next
  case (Suc n)
  then have "foldl (\<lambda>t i. t[i := source ! i]) target [0..<Suc n]
      = (take n source @ drop n target)[n := source ! n]" by simp
  also have "\<dots> = take n source @ (drop n target)[0 := source ! n]"
    using Suc.prems by (simp add: list_update_append)
  also have "drop n target = target ! n # drop (Suc n) target"
    using Suc.prems by (simp add: Cons_nth_drop_Suc)
  also have "take n source @ (target ! n # drop (Suc n) target)[0 := source ! n]
      = take (Suc n) source @ drop (Suc n) target"
    using Suc.prems by (simp add: take_Suc_conv_app_nth)
  finally show ?case .
qed

lemma copy_to_real_t_same_length:
  "length target = length source \<Longrightarrow> copy_to_real_t source target = source"
  by (simp add: copy_to_real_t_def copy_to_real_t_prefix)

lemma rows_get_window:
  "rows_get v a (a + 4) = [v ! a, v ! (a + 1), v ! (a + 2), v ! (a + 3), v ! (a + 4)]"
proof -
  have "[a..<Suc (a + 4)] = [a, a + 1, a + 2, a + 3, a + 4]"
    by (simp add: upt_conv_Cons)
  then show ?thesis by (simp add: rows_get_def)
qed

lemma rows_assign_length: "length (rows_assign v a b x) = length v"
  by (simp add: rows_assign_def)
lemma rows_zeros_length: "length (rows_zeros v a b) = length v"
  by (simp add: rows_zeros_def)
lemma rows_assign_nth: "n < length v \<Longrightarrow>
   rows_assign v a b x ! n = (if a \<le> n \<and> n \<le> b then x ! (n - a) else v ! n)"
  by (simp add: rows_assign_def)
lemma rows_zeros_nth: "n < length v \<Longrightarrow>
   rows_zeros v a b ! n = (if a \<le> n \<and> n \<le> b then 0 else v ! n)"
  by (simp add: rows_zeros_def)

subsection \<open>The bound loop\<close>

text \<open>
  With every leg in the schedule and room for the windows, the loop ends normally, keeps
  what lies before its first window and writes one block per leg. With a leg missing it
  ends in the lookup's error.
\<close>

lemma bounds_loop_ok:
  assumes "list_all (\<lambda>leg. gait_map leg \<noteq> None) legs"
      and "length lbC = 20" "length ubC = 20"
      and "k + length legs \<le> 4"
  shows "\<exists>lbC' ubC'.
     bounds_loop lbf ubf gait_map legs (5 * k) (5 * k + 4) lbC ubC = Inr (lbC', ubC') \<and>
     length lbC' = 20 \<and> length ubC' = 20 \<and>
     (\<forall>n<5 * k. lbC' ! n = lbC ! n \<and> ubC' ! n = ubC ! n) \<and>
     (\<forall>i<length legs. \<forall>r<5.
        lbC' ! (5 * (k + i) + r) =
           (if fst (the (gait_map (legs ! i))) = swing then 0 else lbf ! r) \<and>
        ubC' ! (5 * (k + i) + r) =
           (if fst (the (gait_map (legs ! i))) = swing then 0 else ubf ! r))"
  using assms
proof (induction legs arbitrary: k lbC ubC)
  case Nil
  then show ?case by simp
next
  case (Cons leg rest)
  from Cons.prems obtain entry where entry: "gait_map leg = Some entry" by auto
  have k: "k \<le> 3" using Cons.prems by simp
  have inb: "rows_in_bounds lbC (5 * k) (5 * k + 4)" "rows_in_bounds ubC (5 * k) (5 * k + 4)"
    using Cons.prems k by (simp_all add: rows_in_bounds_def)
  define lb1 where "lb1 = (if fst entry = swing then rows_zeros lbC (5 * k) (5 * k + 4)
                           else rows_assign lbC (5 * k) (5 * k + 4) lbf)"
  define ub1 where "ub1 = (if fst entry = swing then rows_zeros ubC (5 * k) (5 * k + 4)
                           else rows_assign ubC (5 * k) (5 * k + 4) ubf)"
  have len1: "length lb1 = 20" "length ub1 = 20"
    using Cons.prems by (simp_all add: lb1_def ub1_def rows_assign_length rows_zeros_length)
  have step: "bounds_loop lbf ubf gait_map (leg # rest) (5 * k) (5 * k + 4) lbC ubC
      = bounds_loop lbf ubf gait_map rest (5 * Suc k) (5 * Suc k + 4) lb1 ub1"
    using inb by (simp add: entry lb1_def ub1_def add.commute)
  have rest: "list_all (\<lambda>leg. gait_map leg \<noteq> None) rest" "Suc k + length rest \<le> 4"
    using Cons.prems by simp_all
  from Cons.IH [OF rest(1) len1 rest(2)]
  obtain lbC' ubC' where rec:
    "bounds_loop lbf ubf gait_map rest (5 * Suc k) (5 * Suc k + 4) lb1 ub1 = Inr (lbC', ubC')"
    "length lbC' = 20" "length ubC' = 20"
    "\<forall>n<5 * Suc k. lbC' ! n = lb1 ! n \<and> ubC' ! n = ub1 ! n"
    "\<forall>i<length rest. \<forall>r<5.
        lbC' ! (5 * (Suc k + i) + r) =
           (if fst (the (gait_map (rest ! i))) = swing then 0 else lbf ! r) \<and>
        ubC' ! (5 * (Suc k + i) + r) =
           (if fst (the (gait_map (rest ! i))) = swing then 0 else ubf ! r)"
    by blast
  have frame: "\<forall>n<5 * k. lbC' ! n = lbC ! n \<and> ubC' ! n = ubC ! n"
  proof (intro allI impI)
    fix n assume n: "n < 5 * k"
    then have "n < 5 * Suc k" "n < 20" using k by simp_all
    with rec(4) have "lbC' ! n = lb1 ! n" "ubC' ! n = ub1 ! n" by simp_all
    moreover have "lb1 ! n = lbC ! n" "ub1 ! n = ubC ! n"
      using n \<open>n < 20\<close> Cons.prems
      by (simp_all add: lb1_def ub1_def rows_assign_nth rows_zeros_nth)
    ultimately show "lbC' ! n = lbC ! n \<and> ubC' ! n = ubC ! n" by simp
  qed
  have blocks: "\<forall>i<length (leg # rest). \<forall>r<5.
        lbC' ! (5 * (k + i) + r) =
           (if fst (the (gait_map ((leg # rest) ! i))) = swing then 0 else lbf ! r) \<and>
        ubC' ! (5 * (k + i) + r) =
           (if fst (the (gait_map ((leg # rest) ! i))) = swing then 0 else ubf ! r)"
  proof (intro allI impI)
    fix i r assume i: "i < length (leg # rest)" and r: "(r::nat) < 5"
    show "lbC' ! (5 * (k + i) + r) =
           (if fst (the (gait_map ((leg # rest) ! i))) = swing then 0 else lbf ! r) \<and>
        ubC' ! (5 * (k + i) + r) =
           (if fst (the (gait_map ((leg # rest) ! i))) = swing then 0 else ubf ! r)"
    proof (cases i)
      case 0
      have n: "5 * k + r < 5 * Suc k" "5 * k + r < 20" using r k by simp_all
      with rec(4) have "lbC' ! (5 * k + r) = lb1 ! (5 * k + r)"
        "ubC' ! (5 * k + r) = ub1 ! (5 * k + r)" by simp_all
      moreover have "lb1 ! (5 * k + r) = (if fst entry = swing then 0 else lbf ! r)"
        "ub1 ! (5 * k + r) = (if fst entry = swing then 0 else ubf ! r)"
        using n r Cons.prems
        by (simp_all add: lb1_def ub1_def rows_assign_nth rows_zeros_nth)
      ultimately show ?thesis using 0 entry by simp
    next
      case (Suc i')
      then have "i' < length rest" using i by simp
      with rec(5) r have
        "lbC' ! (5 * (Suc k + i') + r) =
           (if fst (the (gait_map (rest ! i'))) = swing then 0 else lbf ! r)"
        "ubC' ! (5 * (Suc k + i') + r) =
           (if fst (the (gait_map (rest ! i'))) = swing then 0 else ubf ! r)"
        by simp_all
      then show ?thesis using Suc by simp
    qed
  qed
  show ?case
    unfolding step using rec(1,2,3) frame blocks by blast
qed

lemma buffers_sized_new:
  "buffers_sized (new_BalanceController env junk mu mass fzmin fzmax Ib S W kff kp_p kd_p kp_w kd_w legs)"
  by (simp add: buffers_sized_def new_BalanceController_def uninitialised_vec_def)

lemma frictionConeBounds_ok:
  assumes legs: "list_all (\<lambda>leg. gait_map leg \<noteq> None) (leg_names_m this)"
      and four: "length (leg_names_m this) \<le> 4"
      and bufs: "length (qp_lbC_m this) = 20" "length (qp_ubC_m this) = 20"
  shows "\<exists>lbC ubC.
     frictionConeBounds this junk gait_map =
       (Inr (), this\<lparr>qp_C_m := copy_to_real_t_mat (C_m this) (qp_C_m this),
                     qp_lbC_m := lbC, qp_ubC_m := ubC\<rparr>) \<and>
     length lbC = 20 \<and> length ubC = 20 \<and>
     (\<forall>i<length (leg_names_m this). \<forall>r<5.
        lbC ! (5 * i + r) =
           (if fst (the (gait_map (leg_names_m this ! i))) = swing then 0
            else [- 1000000, - 1000000, 0, 0, fzmin_m this] ! r) \<and>
        ubC ! (5 * i + r) =
           (if fst (the (gait_map (leg_names_m this ! i))) = swing then 0
            else [0, 0, 1000000, 1000000, fzmax_m this] ! r))"
proof -
  let ?lbf = "[- 1000000, - 1000000, 0, 0, fzmin_m this]"
  let ?ubf = "[0, 0, 1000000, 1000000, fzmax_m this]"
  let ?lb0 = "uninitialised_vec (mem_lbC junk) num_constraints_qp"
  let ?ub0 = "uninitialised_vec (mem_ubC junk) num_constraints_qp"
  have len0: "length ?lb0 = 20" "length ?ub0 = 20"
    by (simp_all add: uninitialised_vec_def num_constraints_qp_def)
  have "0 + length (leg_names_m this) \<le> 4" using four by simp
  from bounds_loop_ok [OF legs len0 this, of ?lbf ?ubf]
  obtain lbC ubC where loop:
    "bounds_loop ?lbf ?ubf gait_map (leg_names_m this) 0 4 ?lb0 ?ub0 = Inr (lbC, ubC)"
    "length lbC = 20" "length ubC = 20"
    "\<forall>i<length (leg_names_m this). \<forall>r<5.
        lbC ! (5 * i + r) =
           (if fst (the (gait_map (leg_names_m this ! i))) = swing then 0 else ?lbf ! r) \<and>
        ubC ! (5 * i + r) =
           (if fst (the (gait_map (leg_names_m this ! i))) = swing then 0 else ?ubf ! r)"
    by auto
  have "frictionConeBounds this junk gait_map =
       (Inr (), this\<lparr>qp_C_m := copy_to_real_t_mat (C_m this) (qp_C_m this),
                     qp_lbC_m := lbC, qp_ubC_m := ubC\<rparr>)"
    using loop(1,2,3) bufs
    by (simp add: frictionConeBounds_def Let_def copy_to_real_t_same_length)
  with loop(2,3,4) show ?thesis by blast
qed

lemma bounds_loop_missing:
  assumes "\<not> list_all (\<lambda>leg. gait_map leg \<noteq> None) legs"
      and "length lbC = 20" "length ubC = 20"
      and "k + length legs \<le> 4"
  shows "bounds_loop lbf ubf gait_map legs (5 * k) (5 * k + 4) lbC ubC = Inl OutOfRange"
  using assms
proof (induction legs arbitrary: k lbC ubC)
  case Nil
  then show ?case by simp
next
  case (Cons leg rest)
  show ?case
  proof (cases "gait_map leg")
    case None
    then show ?thesis by simp
  next
    case (Some entry)
    have k: "k \<le> 3" using Cons.prems by simp
    have inb: "rows_in_bounds lbC (5 * k) (5 * k + 4)" "rows_in_bounds ubC (5 * k) (5 * k + 4)"
      using Cons.prems k by (simp_all add: rows_in_bounds_def)
    have rest: "\<not> list_all (\<lambda>leg. gait_map leg \<noteq> None) rest" "Suc k + length rest \<le> 4"
      using Cons.prems Some by simp_all
    have next_window: "5 * k + 5 = 5 * Suc k" "5 * k + 4 + 5 = 5 * Suc k + 4" by simp_all
    show ?thesis
    proof (cases "fst entry = swing")
      case True
      have "bounds_loop lbf ubf gait_map (leg # rest) (5 * k) (5 * k + 4) lbC ubC
          = bounds_loop lbf ubf gait_map rest (5 * Suc k) (5 * Suc k + 4)
              (rows_zeros lbC (5 * k) (5 * k + 4)) (rows_zeros ubC (5 * k) (5 * k + 4))"
        using inb True Some by (simp add: next_window)
      also have "\<dots> = Inl OutOfRange"
        using Cons.prems by (intro Cons.IH rest) (simp_all add: rows_zeros_length)
      finally show ?thesis .
    next
      case False
      have "bounds_loop lbf ubf gait_map (leg # rest) (5 * k) (5 * k + 4) lbC ubC
          = bounds_loop lbf ubf gait_map rest (5 * Suc k) (5 * Suc k + 4)
              (rows_assign lbC (5 * k) (5 * k + 4) lbf) (rows_assign ubC (5 * k) (5 * k + 4) ubf)"
        using inb False Some by (simp add: next_window)
      also have "\<dots> = Inl OutOfRange"
        using Cons.prems by (intro Cons.IH rest) (simp_all add: rows_assign_length)
      finally show ?thesis .
    qed
  qed
qed

lemma frictionConeBounds_C_m: "C_m (snd (frictionConeBounds this junk gait_map)) = C_m this"
  by (simp add: frictionConeBounds_def Let_def split: sum.splits prod.splits)

lemma extract_solution_C_m: "C_m (snd (extract_solution env this junk Rwb fw)) = C_m this"
  by (simp add: extract_solution_def Let_def)

lemma control_C_m:
  "C_m (snd (control env this junk ft_p Rwb Rwb_d x xdot w x_d xdot_d w_d gait_map)) = C_m this"
proof -
  obtain res this1 where f: "frictionConeBounds this junk gait_map = (res, this1)"
    by (cases "frictionConeBounds this junk gait_map")
  then have c1: "C_m this1 = C_m this"
    using frictionConeBounds_C_m [of this junk gait_map] by simp
  show ?thesis
    by (simp add: control_def f Let_def extract_solution_C_m c1
        split: sum.splits prod.splits)
qed

lemma block_of_entries:
  assumes "\<forall>r<5. v ! (5 * i + r) = b ! r" "length b = 5"
  shows "rows_get v (5 * i) (5 * i + 4) = b"
proof -
  have "v ! (5 * i) = b ! 0" "v ! (5 * i + 1) = b ! 1" "v ! (5 * i + 2) = b ! 2"
    "v ! (5 * i + 3) = b ! 3" "v ! (5 * i + 4) = b ! 4"
    using assms(1) [rule_format, of 0] assms(1) [rule_format, of 1]
      assms(1) [rule_format, of 2] assms(1) [rule_format, of 3] assms(1) [rule_format, of 4]
    by simp_all
  moreover have "b = [b ! 0, b ! 1, b ! 2, b ! 3, b ! 4]"
  proof -
    have "length b = Suc (Suc (Suc (Suc (Suc 0))))" using assms(2) by simp
    then obtain a0 a1 a2 a3 a4 where "b = [a0, a1, a2, a3, a4]"
      by (auto simp: length_Suc_conv)
    then show ?thesis by simp
  qed
  ultimately show ?thesis
    by (simp add: rows_get_window)
qed

lemma frictionConeBounds_windows:
  assumes legs: "list_all (\<lambda>leg. gait_map leg \<noteq> None) (leg_names_m this)"
      and four: "length (leg_names_m this) \<le> 4"
      and bufs: "length (qp_lbC_m this) = 20" "length (qp_ubC_m this) = 20"
      and i: "i < length (leg_names_m this)"
  shows "rows_get (qp_lbC_m (snd (frictionConeBounds this junk gait_map))) (5 * i) (5 * i + 4) =
           (if fst (the (gait_map (leg_names_m this ! i))) = swing then [0, 0, 0, 0, 0]
            else [- 1000000, - 1000000, 0, 0, fzmin_m this])"
    and "rows_get (qp_ubC_m (snd (frictionConeBounds this junk gait_map))) (5 * i) (5 * i + 4) =
           (if fst (the (gait_map (leg_names_m this ! i))) = swing then [0, 0, 0, 0, 0]
            else [0, 0, 1000000, 1000000, fzmax_m this])"
proof -
  from frictionConeBounds_ok [OF legs four bufs, of junk]
  obtain lbC ubC where ok:
    "frictionConeBounds this junk gait_map =
       (Inr (), this\<lparr>qp_C_m := copy_to_real_t_mat (C_m this) (qp_C_m this),
                     qp_lbC_m := lbC, qp_ubC_m := ubC\<rparr>)"
    "\<forall>i<length (leg_names_m this). \<forall>r<5.
        lbC ! (5 * i + r) =
           (if fst (the (gait_map (leg_names_m this ! i))) = swing then 0
            else [- 1000000, - 1000000, 0, 0, fzmin_m this] ! r) \<and>
        ubC ! (5 * i + r) =
           (if fst (the (gait_map (leg_names_m this ! i))) = swing then 0
            else [0, 0, 1000000, 1000000, fzmax_m this] ! r)"
    by blast
  let ?sw = "fst (the (gait_map (leg_names_m this ! i))) = swing"
  have lb: "\<forall>r<5. lbC ! (5 * i + r) =
      (if ?sw then [0, 0, 0, 0, 0] else [- 1000000, - 1000000, 0, 0, fzmin_m this]) ! r"
    using ok(2) i by (auto simp: nth_Cons' )
  have ub: "\<forall>r<5. ubC ! (5 * i + r) =
      (if ?sw then [0, 0, 0, 0, 0] else [0, 0, 1000000, 1000000, fzmax_m this]) ! r"
    using ok(2) i by (auto simp: nth_Cons' )
  show "rows_get (qp_lbC_m (snd (frictionConeBounds this junk gait_map))) (5 * i) (5 * i + 4) =
           (if ?sw then [0, 0, 0, 0, 0] else [- 1000000, - 1000000, 0, 0, fzmin_m this])"
    unfolding ok(1) using block_of_entries [OF lb] by simp
  show "rows_get (qp_ubC_m (snd (frictionConeBounds this junk gait_map))) (5 * i) (5 * i + 4) =
           (if ?sw then [0, 0, 0, 0, 0] else [0, 0, 1000000, 1000000, fzmax_m this])"
    unfolding ok(1) using block_of_entries [OF ub] by simp
qed

lemma frictionConeBounds_lengths:
  assumes legs: "list_all (\<lambda>leg. gait_map leg \<noteq> None) (leg_names_m this)"
      and four: "length (leg_names_m this) \<le> 4"
      and bufs: "length (qp_lbC_m this) = 20" "length (qp_ubC_m this) = 20"
  shows "fst (frictionConeBounds this junk gait_map) = Inr () \<and>
         length (qp_lbC_m (snd (frictionConeBounds this junk gait_map))) = 20 \<and>
         length (qp_ubC_m (snd (frictionConeBounds this junk gait_map))) = 20"
  using frictionConeBounds_ok [OF legs four bufs, of junk] by auto

text \<open>
  The window of a fifth leg name would be the rows \<open>20..24\<close>, outside the 20 rows of the
  bound vectors, and the loop would end in Armadillo's bounds error. The constructor does
  not check the number of names; the statements about the bounds are about
  configurations with at most four.
\<close>

lemma bounds_loop_fifth_window:
  assumes "gait_map leg = Some entry" "length lbC = 20"
  shows "bounds_loop lbf ubf gait_map (leg # rest) 20 24 lbC ubC = Inl LogicError"
  using assms by (simp add: rows_in_bounds_def)

subsection \<open>The example configuration\<close>

lemma example_fields:
  "leg_names_m (example_controller env) = [''RL'', ''FL'', ''RR'', ''FR'']"
  "fzmin_m (example_controller env) = 10"
  "fzmax_m (example_controller env) = 500"
  by (simp_all add: example_controller_def new_BalanceController_def)

lemma example_states:
  "fst (the (example_gait ''RL'')) = unlisted 2"
  "fst (the (example_gait ''FL'')) = stance"
  "fst (the (example_gait ''RR'')) = stance"
  "fst (the (example_gait ''FR'')) = swing"
  by (simp_all add: example_gait_def)

lemma example_hyps:
  "list_all (\<lambda>leg. example_gait leg \<noteq> None) (leg_names_m (example_controller env))"
  "length (leg_names_m (example_controller env)) \<le> 4"
  "length (qp_lbC_m (example_controller env)) = 20"
  "length (qp_ubC_m (example_controller env)) = 20"
  by (simp_all add: example_controller_def new_BalanceController_def example_gait_def
      uninitialised_vec_def num_constraints_qp_def)

subsection \<open>Products, transposes and sums\<close>

lemma col_length: "length (col M j) = length M"
  by (simp add: col_def)

lemma col_nth: "i < length M \<Longrightarrow> col M j ! i = M ! i ! j"
  by (simp add: col_def)

lemma dot_sum: "length u = length v \<Longrightarrow> dot u v = (\<Sum>k<length u. u ! k * v ! k)"
proof -
  assume len: "length u = length v"
  have "dot u v = (\<Sum>k = 0..<length (map2 (*) u v). map2 (*) u v ! k)"
    unfolding dot_def by (rule sum_list_sum_nth)
  also have "\<dots> = (\<Sum>k = 0..<length u. u ! k * v ! k)"
    using len by (intro sum.cong) simp_all
  finally show ?thesis by (simp add: atLeast0LessThan)
qed

lemma is_mat_mat_t: "is_mat r c M \<Longrightarrow> 0 < r \<Longrightarrow> is_mat c r (mat_t M)"
  by (simp add: mat_t_def is_mat_n_cols) (simp add: is_mat_def list_all_length col_length)

lemma mat_t_nth: "is_mat r c M \<Longrightarrow> 0 < r \<Longrightarrow> i < r \<Longrightarrow> j < c \<Longrightarrow> mat_t M ! j ! i = M ! i ! j"
  by (simp add: mat_t_def is_mat_n_cols) (simp add: is_mat_def col_nth)

lemma is_mat_mat_mul:
  "is_mat r n A \<Longrightarrow> is_mat n c B \<Longrightarrow> 0 < n \<Longrightarrow> is_mat r c (mat_mul A B)"
  by (simp add: mat_mul_def is_mat_n_cols) (simp add: is_mat_def list_all_length)

lemma mat_mul_nth:
  assumes "is_mat r n A" "is_mat n c B" "0 < n" "i < r" "j < c"
  shows "mat_mul A B ! i ! j = (\<Sum>k<n. A ! i ! k * B ! k ! j)"
proof -
  have len: "length (A ! i) = n" "length (col B j) = n" "length B = n"
    using assms by (simp_all add: is_mat_nth_length col_length is_mat_def)
  have "mat_mul A B ! i ! j = dot (A ! i) (col B j)"
    using assms by (simp add: mat_mul_def is_mat_n_cols) (simp add: is_mat_def)
  also have "\<dots> = (\<Sum>k<n. A ! i ! k * col B j ! k)"
    using len by (simp add: dot_sum)
  also have "\<dots> = (\<Sum>k<n. A ! i ! k * B ! k ! j)"
    using len by (intro sum.cong) (simp_all add: col_nth)
  finally show ?thesis .
qed

lemma mat_vec_length: "length (mat_vec A v) = length A"
  by (simp add: mat_vec_def)

lemma mat_vec_nth:
  assumes "is_mat r n A" "length v = n" "i < r"
  shows "mat_vec A v ! i = (\<Sum>k<n. A ! i ! k * v ! k)"
proof -
  have "length (A ! i) = n" "i < length A"
    using assms by (simp_all add: is_mat_nth_length is_mat_def)
  then show ?thesis using assms by (simp add: mat_vec_def dot_sum)
qed

lemma is_mat_mat_scale: "is_mat r c M \<Longrightarrow> is_mat r c (mat_scale s M)"
  by (simp add: is_mat_def mat_scale_def vec_scale_def list_all_length)

lemma mat_scale_nth: "is_mat r c M \<Longrightarrow> i < r \<Longrightarrow> j < c \<Longrightarrow> mat_scale s M ! i ! j = s * M ! i ! j"
  by (simp add: is_mat_def mat_scale_def vec_scale_def list_all_length)

lemma is_mat_mat_add: "is_mat r c A \<Longrightarrow> is_mat r c B \<Longrightarrow> is_mat r c (mat_add A B)"
  by (simp add: is_mat_def mat_add_def vec_add_def list_all_length)

lemma mat_add_nth:
  "is_mat r c A \<Longrightarrow> is_mat r c B \<Longrightarrow> i < r \<Longrightarrow> j < c \<Longrightarrow>
   mat_add A B ! i ! j = A ! i ! j + B ! i ! j"
  by (simp add: is_mat_def mat_add_def vec_add_def list_all_length)

subsection \<open>Row-major copies\<close>

lemma concat_uniform_length:
  "list_all (\<lambda>row. length row = c) M \<Longrightarrow> length (concat M) = length M * c"
  by (induction M) simp_all

lemma concat_uniform_nth:
  "list_all (\<lambda>row. length row = c) M \<Longrightarrow> i < length M \<Longrightarrow> j < c \<Longrightarrow>
   concat M ! (i * c + j) = M ! i ! j"
proof (induction M arbitrary: i)
  case Nil
  then show ?case by simp
next
  case (Cons row M)
  show ?case
  proof (cases i)
    case 0
    then show ?thesis using Cons.prems by (simp add: nth_append)
  next
    case (Suc i')
    then show ?thesis using Cons.prems Cons.IH [of i'] by (simp add: nth_append)
  qed
qed

lemma copy_row_prefix:
  "n \<le> length row \<Longrightarrow> k + n \<le> length t \<Longrightarrow>
   foldl (\<lambda>(count, t) j. (Suc count, t[count := row ! j])) (k, t) [0..<n]
     = (k + n, take k t @ take n row @ drop (k + n) t)"
proof (induction n)
  case 0
  then show ?case by simp
next
  case (Suc n)
  have d: "drop (k + n) t = t ! (k + n) # drop (Suc (k + n)) t"
    using Suc.prems by (simp add: Cons_nth_drop_Suc)
  have "(take k t @ take n row @ drop (k + n) t)[k + n := row ! n]
      = take k t @ take n row @ (drop (k + n) t)[0 := row ! n]"
    using Suc.prems by (simp add: list_update_append)
  also have "\<dots> = take k t @ take n row @ (row ! n # drop (Suc (k + n)) t)"
    by (subst d) simp
  also have "\<dots> = take k t @ take (Suc n) row @ drop (k + Suc n) t"
    using Suc.prems by (simp add: take_Suc_conv_app_nth)
  finally show ?case using Suc by simp
qed

lemma copy_rows_prefix:
  assumes "list_all (\<lambda>row. length row = c) M" "length M * c \<le> length t" "m \<le> length M"
  shows "foldl (\<lambda>(count, t) i.
                   foldl (\<lambda>(count, t) j. (Suc count, t[count := M ! i ! j])) (count, t) [0..<c])
               (0, t) [0..<m]
         = (m * c, concat (take m M) @ drop (m * c) t)"
  using assms(3)
proof (induction m)
  case 0
  then show ?case by simp
next
  case (Suc m)
  let ?t = "concat (take m M) @ drop (m * c) t"
  have rowlen: "length (M ! m) = c" using assms(1) Suc.prems by (simp add: list_all_length)
  have "(Suc m) * c \<le> length M * c" using Suc.prems by (intro mult_le_mono1) simp
  then have room: "m * c + c \<le> length t" using assms(2) by simp
  have lenc: "length (concat (take m M)) = m * c"
    using concat_uniform_length [of c "take m M"] assms(1) Suc.prems
    by (simp add: list_all_length)
  have lent: "length ?t = length t" using room lenc by simp
  have step: "foldl (\<lambda>(count, t) j. (Suc count, t[count := M ! m ! j])) (m * c, ?t) [0..<c]
      = (m * c + c, take (m * c) ?t @ take c (M ! m) @ drop (m * c + c) ?t)"
    using rowlen room lent by (intro copy_row_prefix) simp_all
  have "take (m * c) ?t @ take c (M ! m) @ drop (m * c + c) ?t
      = concat (take m M) @ M ! m @ drop (m * c + c) t"
    using lenc rowlen by (simp add: ac_simps)
  also have "\<dots> = concat (take (Suc m) M) @ drop (Suc m * c) t"
    using Suc.prems by (simp add: take_Suc_conv_app_nth add.commute)
  finally show ?case using Suc step by (simp add: add.commute)
qed

lemma copy_to_real_t_mat_concat:
  assumes "is_mat r c M" "0 < r" "length t = r * c"
  shows "copy_to_real_t_mat M t = concat M"
proof -
  have "list_all (\<lambda>row. length row = c) M" "length M = r"
    using assms by (simp_all add: is_mat_def)
  then show ?thesis
    using copy_rows_prefix [of c M t r] assms concat_uniform_length [of c M]
    by (simp add: copy_to_real_t_mat_def is_mat_n_cols is_mat_n_rows)
qed

subsection \<open>Entries of the dynamics data\<close>

lemma eye_nth: "i < r \<Longrightarrow> j < c \<Longrightarrow> eye r c ! i ! j = (if i = j then 1 else 0)"
  by (simp add: eye_def)

lemma is_mat_uninitialised_mat: "is_mat r c (uninitialised_mat mem r c)"
  by (simp add: is_mat_def uninitialised_mat_def list_all_length)

lemma is_mat_col_assign: "is_mat r c M \<Longrightarrow> 0 < r \<Longrightarrow> is_mat r c (col_assign M j x)"
  by (simp add: col_assign_def is_mat_n_cols is_mat_n_rows) (simp add: is_mat_def list_all_length)

lemma col_assign_nth:
  "is_mat r c M \<Longrightarrow> i < r \<Longrightarrow> k < c \<Longrightarrow>
   col_assign M j x ! i ! k = (if k = j then x ! i else M ! i ! k)"
  by (simp add: col_assign_def is_mat_n_cols is_mat_n_rows)

lemma skew_symmetric_col:
  assumes "is_mat 3 c M" "\<forall>k<3. M ! k ! j = v ! k"
  shows "skew_symmetric (col M j) = skew_symmetric v"
proof -
  have "length M = 3" using assms(1) by (simp add: is_mat_def)
  then show ?thesis using assms(2) by (simp add: skew_symmetric_def col_nth)
qed

lemma com_ft_p_columns:
  fixes v0 v1 v2 v3 :: vec and mem :: "nat \<Rightarrow> real"
  defines "com \<equiv> col_assign (col_assign (col_assign (col_assign
                    (uninitialised_mat mem 3 4) 0 v0) 1 v1) 2 v2) 3 v3"
  shows "skew_symmetric (col com 0) = skew_symmetric v0"
    and "skew_symmetric (col com 1) = skew_symmetric v1"
    and "skew_symmetric (col com 2) = skew_symmetric v2"
    and "skew_symmetric (col com 3) = skew_symmetric v3"
proof -
  have m4: "is_mat 3 4 com"
    unfolding com_def by (simp add: is_mat_col_assign is_mat_uninitialised_mat)
  have "\<forall>k<3. com ! k ! 0 = v0 ! k" "\<forall>k<3. com ! k ! 1 = v1 ! k"
    "\<forall>k<3. com ! k ! 2 = v2 ! k" "\<forall>k<3. com ! k ! 3 = v3 ! k"
    unfolding com_def
    by (simp_all add: col_assign_nth [where r = 3 and c = 4] is_mat_col_assign
        is_mat_uninitialised_mat)
  then show "skew_symmetric (col com 0) = skew_symmetric v0"
    and "skew_symmetric (col com 1) = skew_symmetric v1"
    and "skew_symmetric (col com 2) = skew_symmetric v2"
    and "skew_symmetric (col com 3) = skew_symmetric v3"
    using m4 by (simp_all add: skew_symmetric_col)
qed

lemma is_mat_dynamics: "is_mat 6 12 (fst (dynamics this junk ft_p Rwb x xddot_d wdot_d))"
  by (simp add: dynamics_def Let_def num_equations_qp_def num_variables_qp_def
      is_mat_submat_assign is_mat_zeros_mat)

lemma length_dynamics: "length (snd (dynamics this junk ft_p Rwb x xddot_d wdot_d)) = 6"
  by (simp add: dynamics_def Let_def num_equations_qp_def rows_assign_length zeros_vec_def)

lemma dynamics_A_nth:
  assumes "i < 6" "j < 12"
  shows "fst (dynamics this junk ft_p Rwb x xddot_d wdot_d) ! i ! j =
     (if 3 \<le> i \<and> 9 \<le> j then skew_symmetric (mat_vec Rwb (col ft_p 3)) ! (i - 3) ! (j - 9)
      else if 3 \<le> i \<and> 6 \<le> j \<and> j \<le> 8
        then skew_symmetric (mat_vec Rwb (col ft_p 2)) ! (i - 3) ! (j - 6)
      else if 3 \<le> i \<and> 3 \<le> j \<and> j \<le> 5
        then skew_symmetric (mat_vec Rwb (col ft_p 1)) ! (i - 3) ! (j - 3)
      else if 3 \<le> i \<and> j \<le> 2
        then skew_symmetric (mat_vec Rwb (col ft_p 0)) ! (i - 3) ! j
      else if i \<le> 2 \<and> 9 \<le> j then eye 3 3 ! i ! (j - 9)
      else if i \<le> 2 \<and> 6 \<le> j \<and> j \<le> 8 then eye 3 3 ! i ! (j - 6)
      else if i \<le> 2 \<and> 3 \<le> j \<and> j \<le> 5 then eye 3 3 ! i ! (j - 3)
      else if i \<le> 2 \<and> j \<le> 2 then eye 3 3 ! i ! j
      else 0)"
  unfolding dynamics_def Let_def fst_conv com_ft_p_columns
  using assms
  by (simp add: num_equations_qp_def num_variables_qp_def
      submat_assign_nth [where r = 6 and c = 12] is_mat_submat_assign is_mat_zeros_mat
      zeros_mat_nth)

lemma dynamics_b_nth:
  assumes "k < 6"
  shows "snd (dynamics this junk ft_p Rwb x xddot_d wdot_d) ! k =
     (if 3 \<le> k
      then mat_vec (mat_mul (mat_mul Rwb (Ib_m this)) (mat_t Rwb)) wdot_d ! (k - 3)
      else vec_scale (mass_m this) (vec_add xddot_d (g_m this)) ! k)"
  using assms
  by (simp add: dynamics_def Let_def num_equations_qp_def rows_assign_nth rows_assign_length
      zeros_vec_def)

subsection \<open>Short lists\<close>

lemma list3: "length v = 3 \<Longrightarrow> \<exists>a b c. v = [a, b, c]"
proof -
  assume "length v = 3"
  then have "length v = Suc (Suc (Suc 0))" by simp
  then show ?thesis by (auto simp: length_Suc_conv)
qed

lemma list6: "length v = 6 \<Longrightarrow> \<exists>a b c d e f. v = [a, b, c, d, e, f]"
proof -
  assume "length v = 6"
  then have "length v = Suc (Suc (Suc (Suc (Suc (Suc 0)))))" by simp
  then show ?thesis by (auto simp: length_Suc_conv)
qed

lemma eye_3: "eye 3 3 = [[1, 0, 0], [0, 1, 0], [0, 0, 1]]"
  by (simp add: eye_def upt_rec)

lemma example_gains:
  "kff_m (example_controller env) = [1, 1, 1, 1, 1, 1]"
  "kp_p_m (example_controller env) = [2, 2, 2]"
  "kd_p_m (example_controller env) = [3, 3, 3]"
  "kp_w_m (example_controller env) = [4, 4, 4]"
  "kd_w_m (example_controller env) = [5, 5, 5]"
  "mass_m (example_controller env) = 10"
  by (simp_all add: example_controller_def new_BalanceController_def)

lemma example_orientation_error:
  "angleAxisTotal example_env (mat_mul (eye 3 3) (mat_t example_Rwb)) = [0, 0, - 2]"
  by (simp add: example_env_def stub_environment_def mat_mul_def mat_t_def dot_def col_def
      n_cols_def eye_3 example_Rwb_def upt_rec)

subsection \<open>The stages of a control cycle\<close>

lemma formulate_fst:
  "fst (formulate env this junk ft_p Rwb Rwb_d x xdot w x_d xdot_d w_d gait_map)
     = fst (frictionConeBounds this junk gait_map)"
  by (simp add: formulate_def Let_def split: prod.splits sum.splits)

lemma frictionConeBounds_QPSolver_m:
  "QPSolver_m (snd (frictionConeBounds this junk gait_map)) = QPSolver_m this"
  "ros_errors (snd (frictionConeBounds this junk gait_map)) = ros_errors this"
  by (simp_all add: frictionConeBounds_def Let_def split: sum.splits prod.splits)

lemma formulate_QPSolver_m:
  "QPSolver_m (snd (formulate env this junk ft_p Rwb Rwb_d x xdot w x_d xdot_d w_d gait_map))
     = QPSolver_m this"
  "ros_errors (snd (formulate env this junk ft_p Rwb Rwb_d x xdot w x_d xdot_d w_d gait_map))
     = ros_errors this"
proof -
  obtain res this1 where f: "frictionConeBounds this junk gait_map = (res, this1)"
    by (cases "frictionConeBounds this junk gait_map")
  then have "QPSolver_m this1 = QPSolver_m this" "ros_errors this1 = ros_errors this"
    using frictionConeBounds_QPSolver_m [of this junk gait_map] by simp_all
  then show
    "QPSolver_m (snd (formulate env this junk ft_p Rwb Rwb_d x xdot w x_d xdot_d w_d gait_map))
       = QPSolver_m this"
    "ros_errors (snd (formulate env this junk ft_p Rwb Rwb_d x xdot w x_d xdot_d w_d gait_map))
       = ros_errors this"
    by (simp_all add: formulate_def f Let_def split: sum.splits prod.splits)
qed

lemma control_via_formulate:
  "control env this junk ft_p Rwb Rwb_d x xdot w x_d xdot_d w_d gait_map =
     (case formulate env this junk ft_p Rwb Rwb_d x xdot w x_d xdot_d w_d gait_map of
        (Inl e, this1) \<Rightarrow> (Inl e, this1)
      | (Inr _, this2) \<Rightarrow>
          (case solver_call env this2 of
             (ret_val, solver) \<Rightarrow>
               if ret_val \<noteq> SUCCESSFUL_RETURN then
                 (Inr (zeros_vec num_variables_qp),
                  this2\<lparr>QPSolver_m := solver,
                        ros_errors := ros_errors this2 @
                          [if \<not> isInitialised env (QPSolver_m this2)
                           then ''Failed to initialize Balance Controller QP Solver''
                           else ''Failed to hotstart Balance Controller QP Solver'']\<rparr>)
               else extract_solution env (this2\<lparr>QPSolver_m := solver\<rparr>) junk Rwb
                      (zeros_vec num_variables_qp)))"
proof -
  obtain res this1 where f: "frictionConeBounds this junk gait_map = (res, this1)"
    by (cases "frictionConeBounds this junk gait_map")
  show ?thesis
  proof (cases res)
    case (Inl e)
    then show ?thesis by (simp add: control_def formulate_def f)
  next
    case (Inr u)
    obtain xddot_d wdot_d where a:
      "desired_accelerations env this1 Rwb Rwb_d x xdot w x_d xdot_d w_d = (xddot_d, wdot_d)"
      by (cases "desired_accelerations env this1 Rwb Rwb_d x xdot w x_d xdot_d w_d")
    obtain A_dyn b_dyn where d: "dynamics this1 junk ft_p Rwb x xddot_d wdot_d = (A_dyn, b_dyn)"
      by (cases "dynamics this1 junk ft_p Rwb x xddot_d wdot_d")
    obtain Q c where q: "qp_cost this1 A_dyn b_dyn = (Q, c)"
      by (cases "qp_cost this1 A_dyn b_dyn")
    show ?thesis
      by (simp add: control_def formulate_def solver_call_def f Inr a d q Let_def
          split: prod.splits)
  qed
qed

lemma control_solver_failed:
  assumes "fst (formulate env this junk ft_p Rwb Rwb_d x xdot w x_d xdot_d w_d gait_map) = Inr ()"
      and "fst (solver_call env
             (snd (formulate env this junk ft_p Rwb Rwb_d x xdot w x_d xdot_d w_d gait_map)))
           \<noteq> SUCCESSFUL_RETURN"
  shows "fst (control env this junk ft_p Rwb Rwb_d x xdot w x_d xdot_d w_d gait_map)
           = Inr (zeros_vec num_variables_qp)"
    and "length (ros_errors
           (snd (control env this junk ft_p Rwb Rwb_d x xdot w x_d xdot_d w_d gait_map)))
         = Suc (length (ros_errors this))"
proof -
  obtain this2 where f:
    "formulate env this junk ft_p Rwb Rwb_d x xdot w x_d xdot_d w_d gait_map = (Inr (), this2)"
    using assms(1)
    by (cases "formulate env this junk ft_p Rwb Rwb_d x xdot w x_d xdot_d w_d gait_map") simp
  have e: "ros_errors this2 = ros_errors this"
    using formulate_QPSolver_m(2) [of env this junk ft_p Rwb Rwb_d x xdot w x_d xdot_d w_d
        gait_map] f by simp
  obtain ret_val solver where c: "solver_call env this2 = (ret_val, solver)"
    by (cases "solver_call env this2")
  have r: "ret_val \<noteq> SUCCESSFUL_RETURN" using assms(2) f c by simp
  show "fst (control env this junk ft_p Rwb Rwb_d x xdot w x_d xdot_d w_d gait_map)
           = Inr (zeros_vec num_variables_qp)"
    using r by (simp add: control_via_formulate f c)
  show "length (ros_errors
           (snd (control env this junk ft_p Rwb Rwb_d x xdot w x_d xdot_d w_d gait_map)))
         = Suc (length (ros_errors this))"
    using r by (simp add: control_via_formulate f c e)
qed

lemma control_not_solved:
  assumes "fst (formulate env this junk ft_p Rwb Rwb_d x xdot w x_d xdot_d w_d gait_map) = Inr ()"
      and "fst (solver_call env
             (snd (formulate env this junk ft_p Rwb Rwb_d x xdot w x_d xdot_d w_d gait_map)))
           = SUCCESSFUL_RETURN"
      and "\<not> isSolved env (snd (solver_call env
             (snd (formulate env this junk ft_p Rwb Rwb_d x xdot w x_d xdot_d w_d gait_map))))"
  shows "fst (control env this junk ft_p Rwb Rwb_d x xdot w x_d xdot_d w_d gait_map)
           = Inr (zeros_vec num_variables_qp)"
    and "length (ros_errors
           (snd (control env this junk ft_p Rwb Rwb_d x xdot w x_d xdot_d w_d gait_map)))
         = Suc (length (ros_errors this))"
proof -
  obtain this2 where f:
    "formulate env this junk ft_p Rwb Rwb_d x xdot w x_d xdot_d w_d gait_map = (Inr (), this2)"
    using assms(1)
    by (cases "formulate env this junk ft_p Rwb Rwb_d x xdot w x_d xdot_d w_d gait_map") simp
  have e: "ros_errors this2 = ros_errors this"
    using formulate_QPSolver_m(2) [of env this junk ft_p Rwb Rwb_d x xdot w x_d xdot_d w_d
        gait_map] f by simp
  obtain ret_val solver where c: "solver_call env this2 = (ret_val, solver)"
    by (cases "solver_call env this2")
  have r: "ret_val = SUCCESSFUL_RETURN" "\<not> isSolved env solver" using assms(2,3) f c by simp_all
  show "fst (control env this junk ft_p Rwb Rwb_d x xdot w x_d xdot_d w_d gait_map)
           = Inr (zeros_vec num_variables_qp)"
    using r by (simp add: control_via_formulate f c extract_solution_def)
  show "length (ros_errors
           (snd (control env this junk ft_p Rwb Rwb_d x xdot w x_d xdot_d w_d gait_map)))
         = Suc (length (ros_errors this))"
    using r by (simp add: control_via_formulate f c e extract_solution_def)
qed

lemma control_solved:
  assumes "fst (formulate env this junk ft_p Rwb Rwb_d x xdot w x_d xdot_d w_d gait_map) = Inr ()"
      and "fst (solver_call env
             (snd (formulate env this junk ft_p Rwb Rwb_d x xdot w x_d xdot_d w_d gait_map)))
           = SUCCESSFUL_RETURN"
      and "isSolved env (snd (solver_call env
             (snd (formulate env this junk ft_p Rwb Rwb_d x xdot w x_d xdot_d w_d gait_map))))"
  shows "fst (control env this junk ft_p Rwb Rwb_d x xdot w x_d xdot_d w_d gait_map)
           = Inr (body_frame_forces junk Rwb
               (copy_from_real_t (getPrimalSolution env (snd (solver_call env
                  (snd (formulate env this junk ft_p Rwb Rwb_d x xdot w x_d xdot_d w_d
                     gait_map))))) num_variables_qp))"
proof -
  obtain this2 where f:
    "formulate env this junk ft_p Rwb Rwb_d x xdot w x_d xdot_d w_d gait_map = (Inr (), this2)"
    using assms(1)
    by (cases "formulate env this junk ft_p Rwb Rwb_d x xdot w x_d xdot_d w_d gait_map") simp
  obtain ret_val solver where c: "solver_call env this2 = (ret_val, solver)"
    by (cases "solver_call env this2")
  have r: "ret_val = SUCCESSFUL_RETURN" "isSolved env solver" using assms(2,3) f c by simp_all
  show ?thesis
    using r by (simp add: control_via_formulate f c extract_solution_def Let_def)
qed

lemma control_QPSolver_m:
  assumes "fst (formulate env this junk ft_p Rwb Rwb_d x xdot w x_d xdot_d w_d gait_map) = Inr ()"
  shows "QPSolver_m (snd (control env this junk ft_p Rwb Rwb_d x xdot w x_d xdot_d w_d gait_map))
     = snd (solver_call env
         (snd (formulate env this junk ft_p Rwb Rwb_d x xdot w x_d xdot_d w_d gait_map)))"
proof -
  obtain this2 where f:
    "formulate env this junk ft_p Rwb Rwb_d x xdot w x_d xdot_d w_d gait_map = (Inr (), this2)"
    using assms(1)
    by (cases "formulate env this junk ft_p Rwb Rwb_d x xdot w x_d xdot_d w_d gait_map") simp
  obtain ret_val solver where c: "solver_call env this2 = (ret_val, solver)"
    by (cases "solver_call env this2")
  show ?thesis
    by (simp add: control_via_formulate f c extract_solution_def Let_def)
qed

subsection \<open>The frame change\<close>

lemma mat33:
  assumes "is_mat 3 3 R"
  shows "\<exists>a b c d e f g h k. R = [[a, b, c], [d, e, f], [g, h, k]]"
proof -
  from assms have "length R = 3" by (simp add: is_mat_def)
  then obtain r0 r1 r2 where R: "R = [r0, r1, r2]" using list3 by blast
  with assms have "length r0 = 3" "length r1 = 3" "length r2 = 3" by (simp_all add: is_mat_def)
  then obtain a b c d e f g h k where "r0 = [a, b, c]" "r1 = [d, e, f]" "r2 = [g, h, k]"
    using list3 by metis
  with R show ?thesis by blast
qed

lemma mat_t_33:
  "mat_t [[a, b, c], [d, e, f], [g, h, k]] = [[a, d, g], [b, e, h], [c, f, k]]"
  by (simp add: mat_t_def n_cols_def col_def upt_rec)

lemma mat_mul_33:
  "mat_mul [[a, b, c], [d, e, f], [g, h, k]] [[a', b', c'], [d', e', f'], [g', h', k']] =
     [[a * a' + b * d' + c * g', a * b' + b * e' + c * h', a * c' + b * f' + c * k'],
      [d * a' + e * d' + f * g', d * b' + e * e' + f * h', d * c' + e * f' + f * k'],
      [g * a' + h * d' + k * g', g * b' + h * e' + k * h', g * c' + h * f' + k * k']]"
  by (simp add: mat_mul_def n_cols_def col_def dot_def upt_rec)

lemma rotation_preserves_dot:
  assumes "is_mat 3 3 R" "mat_mul R (mat_t R) = eye 3 3" "length v = 3"
  shows "dot (vec_scale (- 1) (mat_vec (mat_t R) v)) (vec_scale (- 1) (mat_vec (mat_t R) v))
           = dot v v"
proof -
  obtain a b c d e f g h k where R: "R = [[a, b, c], [d, e, f], [g, h, k]]"
    using mat33 [OF assms(1)] by blast
  obtain x y z where v: "v = [x, y, z]" using list3 [OF assms(3)] by blast
  have orth: "a * a + b * b + c * c = 1" "d * d + e * e + f * f = 1" "g * g + h * h + k * k = 1"
    "a * d + b * e + c * f = 0" "a * g + b * h + c * k = 0" "d * g + e * h + f * k = 0"
    using assms(2) unfolding R mat_t_33 mat_mul_33 eye_3 by simp_all
  have lhs: "dot (vec_scale (- 1) (mat_vec (mat_t R) v)) (vec_scale (- 1) (mat_vec (mat_t R) v))
      = (a * x + d * y + g * z) * (a * x + d * y + g * z)
      + (b * x + e * y + h * z) * (b * x + e * y + h * z)
      + (c * x + f * y + k * z) * (c * x + f * y + k * z)"
    unfolding R v mat_t_33 by (simp add: vec_scale_def mat_vec_def dot_def algebra_simps)
  have rhs: "dot v v = x * x + y * y + z * z"
    unfolding v by (simp add: dot_def)
  have "(a * x + d * y + g * z) * (a * x + d * y + g * z)
      + (b * x + e * y + h * z) * (b * x + e * y + h * z)
      + (c * x + f * y + k * z) * (c * x + f * y + k * z)
      = x * x * (a * a + b * b + c * c) + y * y * (d * d + e * e + f * f)
        + z * z * (g * g + h * h + k * k)
        + 2 * x * y * (a * d + b * e + c * f) + 2 * x * z * (a * g + b * h + c * k)
        + 2 * y * z * (d * g + e * h + f * k)"
    by (simp add: algebra_simps)
  also have "\<dots> = x * x + y * y + z * z"
    by (simp add: orth)
  finally show ?thesis
    using lhs rhs by simp
qed

lemma rows_get_length: "length (rows_get v a b) = Suc b - a"
  by (simp add: rows_get_def del: upt_Suc)

lemma rows_get_nth: "k < Suc b - a \<Longrightarrow> rows_get v a b ! k = v ! (a + k)"
  by (simp add: rows_get_def del: upt_Suc)

lemma body_frame_forces_length: "length (body_frame_forces junk Rwb fw) = 12"
  by (simp add: body_frame_forces_def Let_def vec_scale_def rows_assign_length
      uninitialised_vec_def num_variables_qp_def)

lemma body_frame_forces_nth:
  assumes "n < 12"
  shows "body_frame_forces junk Rwb fw ! n =
     - (if 9 \<le> n then mat_vec (mat_t Rwb) (rows_get fw 9 11) ! (n - 9)
        else if 6 \<le> n then mat_vec (mat_t Rwb) (rows_get fw 6 8) ! (n - 6)
        else if 3 \<le> n then mat_vec (mat_t Rwb) (rows_get fw 3 5) ! (n - 3)
        else mat_vec (mat_t Rwb) (rows_get fw 0 2) ! n)"
  using assms
  by (simp add: body_frame_forces_def Let_def vec_scale_def rows_assign_length rows_assign_nth
      uninitialised_vec_def num_variables_qp_def)

lemma body_frame_forces_block_nth:
  assumes "i < 4" "c < 3"
  shows "body_frame_forces junk Rwb fw ! (3 * i + c) =
     - (mat_vec (mat_t Rwb) (rows_get fw (3 * i) (3 * i + 2)) ! c)"
proof -
  have i: "i = 0 \<or> i = 1 \<or> i = 2 \<or> i = 3" using assms by arith
  have lt: "3 * i + c < 12" using assms by simp
  show ?thesis
    unfolding body_frame_forces_nth [OF lt]
    using i assms(2) by (elim disjE) (simp_all add: numeral_2_eq_2)
qed

lemma body_frame_forces_block:
  assumes "i < 4" "is_mat 3 3 Rwb"
  shows "rows_get (body_frame_forces junk Rwb fw) (3 * i) (3 * i + 2) =
     vec_scale (- 1) (mat_vec (mat_t Rwb) (rows_get fw (3 * i) (3 * i + 2)))"
proof (rule nth_equalityI)
  have t: "is_mat 3 3 (mat_t Rwb)" using assms(2) by (simp add: is_mat_mat_t)
  then have len: "length (mat_vec (mat_t Rwb) (rows_get fw (3 * i) (3 * i + 2))) = 3"
    by (simp add: mat_vec_length is_mat_def)
  show "length (rows_get (body_frame_forces junk Rwb fw) (3 * i) (3 * i + 2)) =
     length (vec_scale (- 1) (mat_vec (mat_t Rwb) (rows_get fw (3 * i) (3 * i + 2))))"
    using len by (simp add: rows_get_length vec_scale_def)
  fix c assume "c < length (rows_get (body_frame_forces junk Rwb fw) (3 * i) (3 * i + 2))"
  then have c: "c < 3" by (simp add: rows_get_length)
  then show "rows_get (body_frame_forces junk Rwb fw) (3 * i) (3 * i + 2) ! c =
     vec_scale (- 1) (mat_vec (mat_t Rwb) (rows_get fw (3 * i) (3 * i + 2))) ! c"
    using len body_frame_forces_block_nth [OF assms(1) c, of junk Rwb fw]
    by (simp add: rows_get_nth vec_scale_def)
qed

lemma body_frame_forces_entries:
  assumes "i < 4" "c < 3" "is_mat 3 3 Rwb"
  shows "body_frame_forces junk Rwb fw ! (3 * i + c) =
     - (\<Sum>r<3. Rwb ! r ! c * fw ! (3 * i + r))"
proof -
  have t: "is_mat 3 3 (mat_t Rwb)" using assms(3) by (simp add: is_mat_mat_t)
  have "mat_vec (mat_t Rwb) (rows_get fw (3 * i) (3 * i + 2)) ! c =
      (\<Sum>r<3. mat_t Rwb ! c ! r * rows_get fw (3 * i) (3 * i + 2) ! r)"
    using assms(2) by (intro mat_vec_nth [OF t]) (simp_all add: rows_get_length)
  also have "\<dots> = (\<Sum>r<3. Rwb ! r ! c * fw ! (3 * i + r))"
    using assms(2,3) by (intro sum.cong) (simp_all add: mat_t_nth rows_get_nth)
  finally show ?thesis
    using body_frame_forces_block_nth [OF assms(1,2), of junk Rwb fw] by simp
qed

lemma zeros_12: "zeros_vec num_variables_qp = [0, 0, 0, 0, 0, 0, 0, 0, 0, 0, 0, 0]"
  by (simp add: zeros_vec_def num_variables_qp_def numeral_eq_Suc)

lemma example_bounds_ok:
  "fst (frictionConeBounds (example_controller env) example_junk example_gait) = Inr ()"
  using frictionConeBounds_lengths [OF example_hyps, of env example_junk] by simp

lemma example_solver:
  "QPSolver_m (example_controller (stub_environment r_init r_hot solved xOpt)) = False"
  by (simp add: example_controller_def new_BalanceController_def stub_environment_def)

lemma example_Rwb_rotation:
  "is_mat 3 3 example_Rwb" "mat_mul example_Rwb (mat_t example_Rwb) = eye 3 3"
  by (simp_all add: example_Rwb_def is_mat_def mat_t_33 mat_mul_33 eye_3)

lemma example_body_frame:
  "body_frame_forces example_junk example_Rwb example_solution
     = [- 2, 1, - 3, - 5, 4, - 6, - 8, 7, - 9, - 11, 10, - 12]"
  by (simp add: body_frame_forces_def Let_def example_Rwb_def mat_t_33 example_solution_def
      rows_get_def rows_assign_def mat_vec_def dot_def vec_scale_def uninitialised_vec_def
      num_variables_qp_def upt_rec)

subsection \<open>Entries of the cost\<close>

lemma is_mat_qp_cost_Q:
  assumes "is_mat 6 12 A" "is_mat 6 6 (S_m this)" "is_mat 12 12 (W_m this)"
  shows "is_mat 12 12 (fst (qp_cost this A b))"
proof -
  have At: "is_mat 12 6 (mat_t A)" using assms(1) by (simp add: is_mat_mat_t)
  have AtS: "is_mat 12 6 (mat_mul (mat_t A) (S_m this))"
    using At assms(2) by (simp add: is_mat_mat_mul)
  have P: "is_mat 12 12 (mat_mul (mat_mul (mat_t A) (S_m this)) A)"
    using AtS assms(1) by (simp add: is_mat_mat_mul)
  show ?thesis
    using P assms(3) by (simp add: qp_cost_def Let_def is_mat_mat_scale is_mat_mat_add)
qed

lemma qp_cost_Q_nth:
  assumes "is_mat 6 12 A" "is_mat 6 6 (S_m this)" "is_mat 12 12 (W_m this)" "i < 12" "j < 12"
  shows "fst (qp_cost this A b) ! i ! j =
     2 * ((\<Sum>k<6. \<Sum>l<6. A ! k ! i * S_m this ! k ! l * A ! l ! j) + W_m this ! i ! j)"
proof -
  have At: "is_mat 12 6 (mat_t A)" using assms(1) by (simp add: is_mat_mat_t)
  have AtS: "is_mat 12 6 (mat_mul (mat_t A) (S_m this))"
    using At assms(2) by (simp add: is_mat_mat_mul)
  have P: "is_mat 12 12 (mat_mul (mat_mul (mat_t A) (S_m this)) A)"
    using AtS assms(1) by (simp add: is_mat_mat_mul)
  have sum_in: "is_mat 12 12 (mat_add (mat_mul (mat_mul (mat_t A) (S_m this)) A) (W_m this))"
    using P assms(3) by (simp add: is_mat_mat_add)
  have "fst (qp_cost this A b) ! i ! j
      = 2 * (mat_mul (mat_mul (mat_t A) (S_m this)) A ! i ! j + W_m this ! i ! j)"
    using assms(4,5)
    by (simp add: qp_cost_def Let_def mat_scale_nth [OF sum_in] mat_add_nth [OF P assms(3)])
  also have "mat_mul (mat_mul (mat_t A) (S_m this)) A ! i ! j
      = (\<Sum>l<6. mat_mul (mat_t A) (S_m this) ! i ! l * A ! l ! j)"
    using assms(4,5) by (intro mat_mul_nth [OF AtS assms(1)]) simp_all
  also have "\<dots> = (\<Sum>l<6. (\<Sum>k<6. A ! k ! i * S_m this ! k ! l) * A ! l ! j)"
  proof (intro sum.cong refl)
    fix l assume "l \<in> {..<6::nat}"
    then have l: "l < 6" by simp
    have "mat_mul (mat_t A) (S_m this) ! i ! l = (\<Sum>k<6. mat_t A ! i ! k * S_m this ! k ! l)"
      using assms(4) l by (intro mat_mul_nth [OF At assms(2)]) simp_all
    also have "\<dots> = (\<Sum>k<6. A ! k ! i * S_m this ! k ! l)"
      using assms(1,4) by (intro sum.cong) (simp_all add: mat_t_nth)
    finally show "mat_mul (mat_t A) (S_m this) ! i ! l * A ! l ! j
        = (\<Sum>k<6. A ! k ! i * S_m this ! k ! l) * A ! l ! j" by simp
  qed
  also have "\<dots> = (\<Sum>l<6. \<Sum>k<6. A ! k ! i * S_m this ! k ! l * A ! l ! j)"
    by (simp add: sum_distrib_right)
  also have "\<dots> = (\<Sum>k<6. \<Sum>l<6. A ! k ! i * S_m this ! k ! l * A ! l ! j)"
    by (rule sum.swap)
  finally show ?thesis .
qed

lemma length_qp_cost_c:
  assumes "is_mat 6 12 A"
  shows "length (snd (qp_cost this A b)) = 12"
proof -
  have "is_mat 12 6 (mat_t A)" using assms(1) by (simp add: is_mat_mat_t)
  then have "length (mat_t A) = 12" by (simp add: is_mat_def)
  then show ?thesis
    by (simp add: qp_cost_def Let_def mat_vec_length mat_mul_def mat_scale_def)
qed

lemma qp_cost_c_nth:
  assumes "is_mat 6 12 A" "is_mat 6 6 (S_m this)" "length b = 6" "i < 12"
  shows "snd (qp_cost this A b) ! i =
     - 2 * (\<Sum>k<6. \<Sum>l<6. A ! k ! i * S_m this ! k ! l * b ! l)"
proof -
  have At: "is_mat 12 6 (mat_t A)" using assms(1) by (simp add: is_mat_mat_t)
  have sAt: "is_mat 12 6 (mat_scale (- 2) (mat_t A))" using At by (simp add: is_mat_mat_scale)
  have sAtS: "is_mat 12 6 (mat_mul (mat_scale (- 2) (mat_t A)) (S_m this))"
    using sAt assms(2) by (simp add: is_mat_mat_mul)
  have "snd (qp_cost this A b) ! i
      = (\<Sum>l<6. mat_mul (mat_scale (- 2) (mat_t A)) (S_m this) ! i ! l * b ! l)"
    using assms(3,4) by (simp add: qp_cost_def Let_def mat_vec_nth [OF sAtS])
  also have "\<dots> = (\<Sum>l<6. (\<Sum>k<6. - 2 * A ! k ! i * S_m this ! k ! l) * b ! l)"
  proof (intro sum.cong refl)
    fix l assume "l \<in> {..<6::nat}"
    then have l: "l < 6" by simp
    have "mat_mul (mat_scale (- 2) (mat_t A)) (S_m this) ! i ! l
        = (\<Sum>k<6. mat_scale (- 2) (mat_t A) ! i ! k * S_m this ! k ! l)"
      using assms(4) l by (intro mat_mul_nth [OF sAt assms(2)]) simp_all
    also have "\<dots> = (\<Sum>k<6. - 2 * A ! k ! i * S_m this ! k ! l)"
      using assms(1,4) by (intro sum.cong) (simp_all add: mat_scale_nth [OF At] mat_t_nth)
    finally show "mat_mul (mat_scale (- 2) (mat_t A)) (S_m this) ! i ! l * b ! l
        = (\<Sum>k<6. - 2 * A ! k ! i * S_m this ! k ! l) * b ! l" by simp
  qed
  also have "\<dots> = (\<Sum>l<6. \<Sum>k<6. - 2 * (A ! k ! i * S_m this ! k ! l * b ! l))"
    by (simp add: sum_distrib_right mult.assoc)
  also have "\<dots> = (\<Sum>k<6. \<Sum>l<6. - 2 * (A ! k ! i * S_m this ! k ! l * b ! l))"
    by (rule sum.swap)
  also have "\<dots> = - 2 * (\<Sum>k<6. \<Sum>l<6. A ! k ! i * S_m this ! k ! l * b ! l)"
    by (simp add: sum_distrib_left)
  finally show ?thesis .
qed

lemma bounds_written_fields:
  "desired_accelerations env (this\<lparr>qp_C_m := bC, qp_lbC_m := blb, qp_ubC_m := bub\<rparr>)
       Rwb Rwb_d x xdot w x_d xdot_d w_d
     = desired_accelerations env this Rwb Rwb_d x xdot w x_d xdot_d w_d"
  "dynamics (this\<lparr>qp_C_m := bC, qp_lbC_m := blb, qp_ubC_m := bub\<rparr>) junk ft_p Rwb x xddot_d wdot_d
     = dynamics this junk ft_p Rwb x xddot_d wdot_d"
  "qp_cost (this\<lparr>qp_C_m := bC, qp_lbC_m := blb, qp_ubC_m := bub\<rparr>) A b = qp_cost this A b"
  by (simp_all add: desired_accelerations_def dynamics_def qp_cost_def)

lemma formulate_cost_arrays:
  assumes legs: "list_all (\<lambda>leg. gait_map leg \<noteq> None) (leg_names_m this)"
      and four: "length (leg_names_m this) \<le> 4"
      and bufs: "buffers_sized this"
      and S: "is_mat 6 6 (S_m this)" and W: "is_mat 12 12 (W_m this)"
      and acc: "acc = desired_accelerations env this Rwb Rwb_d x xdot w x_d xdot_d w_d"
      and dyn: "dyn = dynamics this junk ft_p Rwb x (fst acc) (snd acc)"
  shows "qp_Q_m (snd (formulate env this junk ft_p Rwb Rwb_d x xdot w x_d xdot_d w_d gait_map))
           = concat (fst (qp_cost this (fst dyn) (snd dyn)))"
    and "qp_c_m (snd (formulate env this junk ft_p Rwb Rwb_d x xdot w x_d xdot_d w_d gait_map))
           = snd (qp_cost this (fst dyn) (snd dyn))"
proof -
  have b20: "length (qp_lbC_m this) = 20" "length (qp_ubC_m this) = 20"
    and bQ: "length (qp_Q_m this) = 12 * 12" and bc: "length (qp_c_m this) = 12"
    using bufs by (simp_all add: buffers_sized_def num_constraints_qp_def num_variables_qp_def)
  from frictionConeBounds_ok [OF legs four b20, of junk]
  obtain lbC ubC where f: "frictionConeBounds this junk gait_map =
       (Inr (), this\<lparr>qp_C_m := copy_to_real_t_mat (C_m this) (qp_C_m this),
                     qp_lbC_m := lbC, qp_ubC_m := ubC\<rparr>)"
    by blast
  have A: "is_mat 6 12 (fst dyn)" unfolding dyn by (rule is_mat_dynamics)
  have Q: "is_mat 12 12 (fst (qp_cost this (fst dyn) (snd dyn)))"
    using A S W by (rule is_mat_qp_cost_Q)
  have c: "length (snd (qp_cost this (fst dyn) (snd dyn))) = 12"
    using A by (rule length_qp_cost_c)
  have copyQ: "copy_to_real_t_mat (fst (qp_cost this (fst dyn) (snd dyn))) (qp_Q_m this)
      = concat (fst (qp_cost this (fst dyn) (snd dyn)))"
    using Q bQ by (intro copy_to_real_t_mat_concat [where r = 12 and c = 12]) simp_all
  have copyc: "copy_to_real_t (snd (qp_cost this (fst dyn) (snd dyn))) (qp_c_m this)
      = snd (qp_cost this (fst dyn) (snd dyn))"
    using c bc by (intro copy_to_real_t_same_length) simp
  have form: "formulate env this junk ft_p Rwb Rwb_d x xdot w x_d xdot_d w_d gait_map =
      (Inr (), this\<lparr>qp_C_m := copy_to_real_t_mat (C_m this) (qp_C_m this),
                     qp_lbC_m := lbC, qp_ubC_m := ubC,
                     qp_Q_m := concat (fst (qp_cost this (fst dyn) (snd dyn))),
                     qp_c_m := snd (qp_cost this (fst dyn) (snd dyn))\<rparr>)"
    unfolding formulate_def f
    by (simp add: Let_def bounds_written_fields split_beta acc [symmetric] dyn [symmetric]
        copyQ copyc)
  show "qp_Q_m (snd (formulate env this junk ft_p Rwb Rwb_d x xdot w x_d xdot_d w_d gait_map))
           = concat (fst (qp_cost this (fst dyn) (snd dyn)))"
    and "qp_c_m (snd (formulate env this junk ft_p Rwb Rwb_d x xdot w x_d xdot_d w_d gait_map))
           = snd (qp_cost this (fst dyn) (snd dyn))"
    unfolding form by simp_all
qed

lemma is_mat_eye: "is_mat r c (eye r c)"
  by (simp add: is_mat_def eye_def list_all_length)

lemma example_weights:
  "S_m (example_controller env) = eye 6 6"
  "W_m (example_controller env) = mat_scale (1 / 100) (eye 12 12)"
  "is_mat 6 6 (S_m (example_controller env))"
  "is_mat 12 12 (W_m (example_controller env))"
  "buffers_sized (example_controller env)"
  by (simp_all add: example_controller_def new_BalanceController_def is_mat_eye is_mat_mat_scale
      buffers_sized_def uninitialised_vec_def)

lemma below_6: "{..<6::nat} = {0, 1, 2, 3, 4, 5}"
  by auto

lemma example_first_column:
  "fst (dynamics (example_controller env) example_junk example_ft_p example_Rwb x xddot_d wdot_d)
     ! 0 ! 0 = 1"
  "fst (dynamics (example_controller env) example_junk example_ft_p example_Rwb x xddot_d wdot_d)
     ! 1 ! 0 = 0"
  "fst (dynamics (example_controller env) example_junk example_ft_p example_Rwb x xddot_d wdot_d)
     ! 2 ! 0 = 0"
  "fst (dynamics (example_controller env) example_junk example_ft_p example_Rwb x xddot_d wdot_d)
     ! 3 ! 0 = 0"
  "fst (dynamics (example_controller env) example_junk example_ft_p example_Rwb x xddot_d wdot_d)
     ! 4 ! 0 = - 3"
  "fst (dynamics (example_controller env) example_junk example_ft_p example_Rwb x xddot_d wdot_d)
     ! 5 ! 0 = 2"
  by (simp_all add: dynamics_A_nth eye_3 skew_symmetric_def mat_vec_def dot_def col_def
      example_Rwb_def example_ft_p_def)

subsection \<open>The constraint arguments of the solver call\<close>

lemma formulate_constraint_arrays:
  "qp_C_m (snd (formulate env this junk ft_p Rwb Rwb_d x xdot w x_d xdot_d w_d gait_map))
     = qp_C_m (snd (frictionConeBounds this junk gait_map))"
  "qp_lbC_m (snd (formulate env this junk ft_p Rwb Rwb_d x xdot w x_d xdot_d w_d gait_map))
     = qp_lbC_m (snd (frictionConeBounds this junk gait_map))"
  "qp_ubC_m (snd (formulate env this junk ft_p Rwb Rwb_d x xdot w x_d xdot_d w_d gait_map))
     = qp_ubC_m (snd (frictionConeBounds this junk gait_map))"
  by (simp_all add: formulate_def Let_def split: prod.splits sum.splits)

lemma frictionConeBounds_budget:
  "nWSR_m (snd (frictionConeBounds this junk gait_map)) = nWSR_m this"
  "cpu_time_m (snd (frictionConeBounds this junk gait_map)) = cpu_time_m this"
  by (simp_all add: frictionConeBounds_def Let_def split: sum.splits prod.splits)

lemma formulate_budget:
  "nWSR_m (snd (formulate env this junk ft_p Rwb Rwb_d x xdot w x_d xdot_d w_d gait_map))
     = nWSR_m this"
  "cpu_time_m (snd (formulate env this junk ft_p Rwb Rwb_d x xdot w x_d xdot_d w_d gait_map))
     = cpu_time_m this"
proof -
  obtain res this1 where f: "frictionConeBounds this junk gait_map = (res, this1)"
    by (cases "frictionConeBounds this junk gait_map")
  then have "nWSR_m this1 = nWSR_m this" "cpu_time_m this1 = cpu_time_m this"
    using frictionConeBounds_budget [of this junk gait_map] by simp_all
  then show
    "nWSR_m (snd (formulate env this junk ft_p Rwb Rwb_d x xdot w x_d xdot_d w_d gait_map))
       = nWSR_m this"
    "cpu_time_m (snd (formulate env this junk ft_p Rwb Rwb_d x xdot w x_d xdot_d w_d gait_map))
       = cpu_time_m this"
    by (simp_all add: formulate_def f Let_def split: sum.splits prod.splits)
qed

lemma frictionConeBounds_constraint_array:
  assumes legs: "list_all (\<lambda>leg. gait_map leg \<noteq> None) (leg_names_m this)"
      and four: "length (leg_names_m this) \<le> 4"
      and bufs: "length (qp_lbC_m this) = 20" "length (qp_ubC_m this) = 20"
      and C: "is_mat 20 12 (C_m this)" and room: "length (qp_C_m this) = 20 * 12"
  shows "qp_C_m (snd (frictionConeBounds this junk gait_map)) = concat (C_m this)"
proof -
  from frictionConeBounds_ok [OF legs four bufs, of junk]
  obtain lbC ubC where f: "frictionConeBounds this junk gait_map =
       (Inr (), this\<lparr>qp_C_m := copy_to_real_t_mat (C_m this) (qp_C_m this),
                     qp_lbC_m := lbC, qp_ubC_m := ubC\<rparr>)"
    by blast
  have "copy_to_real_t_mat (C_m this) (qp_C_m this) = concat (C_m this)"
    using C room by (intro copy_to_real_t_mat_concat [where r = 20 and c = 12]) simp_all
  then show ?thesis unfolding f by simp
qed

section \<open>The claims\<close>

subsection \<open>Bounds of stance and swing legs\<close>

text \<open>
  C1. For a contact schedule with an entry for every configured leg, \<open>frictionConeBounds\<close>
  returns normally and leaves 20-cell lower and upper bound arrays in which leg \<open>i\<close> of
  the configured order owns the cells \<open>5i..5i+4\<close>: a stance leg has the lower bounds
  \<open>(-1000000, -1000000, 0, 0, fzmin)\<close> and the upper bounds \<open>(0, 0, 1000000, 1000000, fzmax)\<close>,
  a swing leg has zero in all ten cells. The unbounded sides are the finite number
  \<open>1000000\<close> with either sign. The configuration is that of the spec: at most four leg
  names, and raw arrays of 20 cells.
\<close>

theorem frictionConeBounds_blocks:
  assumes "list_all (\<lambda>leg. gait_map leg \<noteq> None) (leg_names_m this)"
      and "length (leg_names_m this) \<le> 4"
      and "length (qp_lbC_m this) = 20" and "length (qp_ubC_m this) = 20"
  shows "fst (frictionConeBounds this junk gait_map) = Inr () \<and>
         length (qp_lbC_m (snd (frictionConeBounds this junk gait_map))) = 20 \<and>
         length (qp_ubC_m (snd (frictionConeBounds this junk gait_map))) = 20 \<and>
         (\<forall>i<length (leg_names_m this).
            (fst (the (gait_map (leg_names_m this ! i))) = stance \<longrightarrow>
               rows_get (qp_lbC_m (snd (frictionConeBounds this junk gait_map))) (5 * i) (5 * i + 4)
                 = [- 1000000, - 1000000, 0, 0, fzmin_m this] \<and>
               rows_get (qp_ubC_m (snd (frictionConeBounds this junk gait_map))) (5 * i) (5 * i + 4)
                 = [0, 0, 1000000, 1000000, fzmax_m this]) \<and>
            (fst (the (gait_map (leg_names_m this ! i))) = swing \<longrightarrow>
               rows_get (qp_lbC_m (snd (frictionConeBounds this junk gait_map))) (5 * i) (5 * i + 4)
                 = [0, 0, 0, 0, 0] \<and>
               rows_get (qp_ubC_m (snd (frictionConeBounds this junk gait_map))) (5 * i) (5 * i + 4)
                 = [0, 0, 0, 0, 0]))"
  using frictionConeBounds_lengths [OF assms, of junk]
    frictionConeBounds_windows [OF assms, of _ junk]
  by simp

theorem frictionConeBounds_blocks_witness:
  "fst (frictionConeBounds (example_controller example_env) example_junk example_gait) = Inr () \<and>
   rows_get (qp_lbC_m (snd (frictionConeBounds (example_controller example_env) example_junk
       example_gait))) 5 9 = [- 1000000, - 1000000, 0, 0, 10] \<and>
   rows_get (qp_ubC_m (snd (frictionConeBounds (example_controller example_env) example_junk
       example_gait))) 5 9 = [0, 0, 1000000, 1000000, 500] \<and>
   rows_get (qp_lbC_m (snd (frictionConeBounds (example_controller example_env) example_junk
       example_gait))) 15 19 = [0, 0, 0, 0, 0] \<and>
   rows_get (qp_ubC_m (snd (frictionConeBounds (example_controller example_env) example_junk
       example_gait))) 15 19 = [0, 0, 0, 0, 0]"
proof -
  note T = frictionConeBounds_blocks [OF example_hyps [where env = example_env], of example_junk]
  from T have blocks:
    "\<forall>i<length (leg_names_m (example_controller example_env)).
       (fst (the (example_gait (leg_names_m (example_controller example_env) ! i))) = stance \<longrightarrow>
          rows_get (qp_lbC_m (snd (frictionConeBounds (example_controller example_env)
              example_junk example_gait))) (5 * i) (5 * i + 4)
            = [- 1000000, - 1000000, 0, 0, fzmin_m (example_controller example_env)] \<and>
          rows_get (qp_ubC_m (snd (frictionConeBounds (example_controller example_env)
              example_junk example_gait))) (5 * i) (5 * i + 4)
            = [0, 0, 1000000, 1000000, fzmax_m (example_controller example_env)]) \<and>
       (fst (the (example_gait (leg_names_m (example_controller example_env) ! i))) = swing \<longrightarrow>
          rows_get (qp_lbC_m (snd (frictionConeBounds (example_controller example_env)
              example_junk example_gait))) (5 * i) (5 * i + 4) = [0, 0, 0, 0, 0] \<and>
          rows_get (qp_ubC_m (snd (frictionConeBounds (example_controller example_env)
              example_junk example_gait))) (5 * i) (5 * i + 4) = [0, 0, 0, 0, 0])"
    by blast
  show ?thesis
    using T blocks [rule_format, of 1] blocks [rule_format, of 3]
    by (simp add: example_fields example_states)
qed

subsection \<open>The constraint matrix\<close>

text \<open>
  C2. The constructor stores the value of \<open>frictionConeConstraint\<close> in \<open>C_\<close>, and neither
  \<open>frictionConeBounds\<close> nor \<open>control\<close> changes that member. The matrix is 20 by 12; for
  foot \<open>i\<close> its rows \<open>5i..5i+4\<close> hold, in the columns \<open>3i..3i+2\<close>, the block with the rows
  \<open>(1, 0, -mu)\<close>, \<open>(0, 1, -mu)\<close>, \<open>(0, 1, mu)\<close>, \<open>(1, 0, mu)\<close>, \<open>(0, 0, 1)\<close>, and zero in every
  other column.
\<close>

theorem constraint_matrix_built_once:
  "C_m (new_BalanceController env junk mu mass fzmin fzmax Ib S W kff kp_p kd_p kp_w kd_w legs)
     = frictionConeConstraint mu \<and>
   is_mat 20 12 (frictionConeConstraint mu) \<and>
   (\<forall>i<4. \<forall>r<5. \<forall>c<12.
      frictionConeConstraint mu ! (5 * i + r) ! c =
        (if 3 * i \<le> c \<and> c \<le> 3 * i + 2
         then [[1, 0, - mu], [0, 1, - mu], [0, 1, mu], [1, 0, mu], [0, 0, 1]] ! r ! (c - 3 * i)
         else 0)) \<and>
   C_m (snd (frictionConeBounds this junk' gait_map)) = C_m this \<and>
   C_m (snd (control env' this junk' ft_p Rwb Rwb_d x xdot w x_d xdot_d w_d gait_map)) = C_m this"
proof -
  have entries: "frictionConeConstraint mu ! (5 * i + r) ! c =
        (if 3 * i \<le> c \<and> c \<le> 3 * i + 2
         then [[1, 0, - mu], [0, 1, - mu], [0, 1, mu], [1, 0, mu], [0, 0, 1]] ! r ! (c - 3 * i)
         else 0)" if "i < 4" "r < 5" "c < 12" for i r c
  proof -
    have i: "i = 0 \<or> i = 1 \<or> i = 2 \<or> i = 3" using that by arith
    have lt: "5 * i + r < 20" using that by simp
    show ?thesis
      unfolding frictionConeConstraint_nth [OF lt that(3)] Cf_def
      using i that(2,3) by (elim disjE) auto
  qed
  show ?thesis
    using entries
    by (simp add: new_BalanceController_def is_mat_frictionConeConstraint
        frictionConeBounds_C_m control_C_m)
qed

theorem constraint_matrix_built_once_witness:
  "frictionConeConstraint (6 / 10) ! 5 ! 5 = - (6 / 10) \<and>
   frictionConeConstraint (6 / 10) ! 5 ! 3 = 1 \<and>
   frictionConeConstraint (6 / 10) ! 5 ! 6 = 0 \<and>
   C_m (snd (frictionConeBounds (example_controller example_env) example_junk example_gait))
     = frictionConeConstraint (6 / 10)"
proof -
  note T = constraint_matrix_built_once [of example_env example_junk "6 / 10" 10 10 500
      "eye 3 3" "eye 6 6" "mat_scale (1 / 100) (eye 12 12)" "[1, 1, 1, 1, 1, 1]" "[2, 2, 2]"
      "[3, 3, 3]" "[4, 4, 4]" "[5, 5, 5]" "[''RL'', ''FL'', ''RR'', ''FR'']"
      "example_controller example_env" example_junk example_gait]
  from T have entries: "\<forall>i<4. \<forall>r<5. \<forall>c<12.
      frictionConeConstraint (6 / 10) ! (5 * i + r) ! c =
        (if 3 * i \<le> c \<and> c \<le> 3 * i + 2
         then [[1, 0, - (6 / 10)], [0, 1, - (6 / 10)], [0, 1, 6 / 10], [1, 0, 6 / 10], [0, 0, 1]]
                ! r ! (c - 3 * i)
         else 0)"
    by blast
  from T have kept:
    "C_m (snd (frictionConeBounds (example_controller example_env) example_junk example_gait))
       = C_m (example_controller example_env)"
    by blast
  from T have built: "C_m (example_controller example_env) = frictionConeConstraint (6 / 10)"
    by (simp add: example_controller_def)
  show ?thesis
    using entries [rule_format, of 1 0 5] entries [rule_format, of 1 0 3]
      entries [rule_format, of 1 0 6] kept built
    by simp
qed

subsection \<open>Cost of the quadratic program\<close>

text \<open>
  C3. In a cycle whose bound builder returns normally, with a 6 by 6 weight \<open>S\<close>, a 12 by
  12 weight \<open>W\<close> and raw arrays of the solver's sizes, the solver is called once
  (\<^verbatim>\<open>init\<close> when it is not initialised, \<^verbatim>\<open>hotstart\<close> otherwise) with these arguments: both
  variable-bound pointers are null; the cost matrix, row by row in 144 cells, has
  \<open>2 ((A\<^sup>T S A)(i, j) + W(i, j))\<close> in cell \<open>12 i + j\<close>; the cost vector has
  \<open>-2 (A\<^sup>T S b)(i)\<close> in cell \<open>i\<close>. Here \<open>A\<close> and \<open>b\<close> are what \<open>dynamics\<close> returns for the
  accelerations of the feedback law. What bounds the forces is passed with them: the
  constraint matrix is the member \<open>C_\<close>, row by row in 240 cells when it is 20 by 12, and
  the two constraint-bound arrays are the ones \<open>frictionConeBounds\<close> has just written, 20
  cells each, holding for every configured leg its stance block or its zero block. The
  iteration and time budgets are the members \<open>nWSR_\<close> and \<open>cpu_time_\<close>.
\<close>

theorem qp_cost_and_null_bounds:
  assumes "list_all (\<lambda>leg. gait_map leg \<noteq> None) (leg_names_m this)"
      and "length (leg_names_m this) \<le> 4"
      and "buffers_sized this"
      and "is_mat 6 6 (S_m this)" and "is_mat 12 12 (W_m this)"
      and "acc = desired_accelerations env this Rwb Rwb_d x xdot w x_d xdot_d w_d"
      and "A = fst (dynamics this junk ft_p Rwb x (fst acc) (snd acc))"
      and "b = snd (dynamics this junk ft_p Rwb x (fst acc) (snd acc))"
      and "args = qp_arguments
             (snd (formulate env this junk ft_p Rwb Rwb_d x xdot w x_d xdot_d w_d gait_map))"
  shows "QPSolver_m (snd (control env this junk ft_p Rwb Rwb_d x xdot w x_d xdot_d w_d gait_map))
           = snd (if \<not> isInitialised env (QPSolver_m this)
                  then init env (QPSolver_m this) args
                  else hotstart env (QPSolver_m this) args) \<and>
         arg_lb args = None \<and> arg_ub args = None \<and>
         length (arg_H args) = 12 * 12 \<and> length (arg_g args) = 12 \<and>
         (\<forall>i<12. \<forall>j<12. arg_H args ! (12 * i + j) =
            2 * ((\<Sum>k<6. \<Sum>l<6. A ! k ! i * S_m this ! k ! l * A ! l ! j) + W_m this ! i ! j)) \<and>
         (\<forall>i<12. arg_g args ! i =
            - 2 * (\<Sum>k<6. \<Sum>l<6. A ! k ! i * S_m this ! k ! l * b ! l)) \<and>
         (is_mat 20 12 (C_m this) \<longrightarrow>
            length (arg_A args) = 20 * 12 \<and>
            (\<forall>r<20. \<forall>c<12. arg_A args ! (12 * r + c) = C_m this ! r ! c)) \<and>
         arg_lbA args = qp_lbC_m (snd (frictionConeBounds this junk gait_map)) \<and>
         arg_ubA args = qp_ubC_m (snd (frictionConeBounds this junk gait_map)) \<and>
         length (arg_lbA args) = 20 \<and> length (arg_ubA args) = 20 \<and>
         (\<forall>i<length (leg_names_m this).
            rows_get (arg_lbA args) (5 * i) (5 * i + 4) =
              (if fst (the (gait_map (leg_names_m this ! i))) = swing then [0, 0, 0, 0, 0]
               else [- 1000000, - 1000000, 0, 0, fzmin_m this]) \<and>
            rows_get (arg_ubA args) (5 * i) (5 * i + 4) =
              (if fst (the (gait_map (leg_names_m this ! i))) = swing then [0, 0, 0, 0, 0]
               else [0, 0, 1000000, 1000000, fzmax_m this])) \<and>
         arg_nWSR args = nWSR_m this \<and> arg_cputime args = cpu_time_m this"
proof -
  let ?f = "formulate env this junk ft_p Rwb Rwb_d x xdot w x_d xdot_d w_d gait_map"
  define dyn where "dyn = dynamics this junk ft_p Rwb x (fst acc) (snd acc)"
  have A: "A = fst dyn" and b: "b = snd dyn" using assms(7,8) by (simp_all add: dyn_def)
  have Am: "is_mat 6 12 A" unfolding assms(7) by (rule is_mat_dynamics)
  have bl: "length b = 6" unfolding assms(8) by (rule length_dynamics)
  have b20: "length (qp_lbC_m this) = 20" "length (qp_ubC_m this) = 20"
    using assms(3) by (simp_all add: buffers_sized_def num_constraints_qp_def)
  have ok: "fst ?f = Inr ()"
    using frictionConeBounds_lengths [OF assms(1,2) b20, of junk] by (simp add: formulate_fst)
  have H: "arg_H args = concat (fst (qp_cost this A b))"
    and g: "arg_g args = snd (qp_cost this A b)"
    using formulate_cost_arrays [OF assms(1-6) dyn_def]
    by (simp_all add: assms(9) qp_arguments_def A b)
  have Q: "is_mat 12 12 (fst (qp_cost this A b))"
    using Am assms(4,5) by (rule is_mat_qp_cost_Q)
  then have rows: "list_all (\<lambda>row. length row = 12) (fst (qp_cost this A b))"
    "length (fst (qp_cost this A b)) = 12"
    by (simp_all add: is_mat_def)
  have call: "QPSolver_m (snd (control env this junk ft_p Rwb Rwb_d x xdot w x_d xdot_d w_d
        gait_map))
      = snd (if \<not> isInitialised env (QPSolver_m this)
             then init env (QPSolver_m this) args else hotstart env (QPSolver_m this) args)"
    using control_QPSolver_m [OF ok]
    by (simp add: solver_call_def formulate_QPSolver_m assms(9))
  have lenH: "length (arg_H args) = 12 * 12"
    using concat_uniform_length [OF rows(1)] rows(2) by (simp add: H)
  have leng: "length (arg_g args) = 12"
    using length_qp_cost_c [OF Am] by (simp add: g)
  have entH: "arg_H args ! (12 * i + j) =
      2 * ((\<Sum>k<6. \<Sum>l<6. A ! k ! i * S_m this ! k ! l * A ! l ! j) + W_m this ! i ! j)"
    if "i < 12" "j < 12" for i j
  proof -
    have "arg_H args ! (i * 12 + j) = fst (qp_cost this A b) ! i ! j"
      unfolding H using that rows by (intro concat_uniform_nth) simp_all
    then show ?thesis
      using qp_cost_Q_nth [OF Am assms(4,5) that, of b] by (simp add: mult.commute)
  qed
  have entg: "arg_g args ! i = - 2 * (\<Sum>k<6. \<Sum>l<6. A ! k ! i * S_m this ! k ! l * b ! l)"
    if "i < 12" for i
    using qp_cost_c_nth [OF Am assms(4) bl that] by (simp add: g)
  have null: "arg_lb args = None" "arg_ub args = None"
    by (simp_all add: assms(9) qp_arguments_def)
  have cost: "QPSolver_m (snd (control env this junk ft_p Rwb Rwb_d x xdot w x_d xdot_d w_d
        gait_map))
      = snd (if \<not> isInitialised env (QPSolver_m this)
             then init env (QPSolver_m this) args else hotstart env (QPSolver_m this) args) \<and>
    arg_lb args = None \<and> arg_ub args = None \<and>
    length (arg_H args) = 12 * 12 \<and> length (arg_g args) = 12 \<and>
    (\<forall>i<12. \<forall>j<12. arg_H args ! (12 * i + j) =
       2 * ((\<Sum>k<6. \<Sum>l<6. A ! k ! i * S_m this ! k ! l * A ! l ! j) + W_m this ! i ! j)) \<and>
    (\<forall>i<12. arg_g args ! i =
       - 2 * (\<Sum>k<6. \<Sum>l<6. A ! k ! i * S_m this ! k ! l * b ! l))"
    using call null lenH leng entH entg by blast
  have lbA: "arg_lbA args = qp_lbC_m (snd (frictionConeBounds this junk gait_map))"
    and ubA: "arg_ubA args = qp_ubC_m (snd (frictionConeBounds this junk gait_map))"
    and Aarg: "arg_A args = qp_C_m (snd (frictionConeBounds this junk gait_map))"
    by (simp_all add: assms(9) qp_arguments_def formulate_constraint_arrays)
  have lens: "length (arg_lbA args) = 20" "length (arg_ubA args) = 20"
    using frictionConeBounds_lengths [OF assms(1,2) b20, of junk] by (simp_all add: lbA ubA)
  have blocks: "rows_get (arg_lbA args) (5 * i) (5 * i + 4) =
        (if fst (the (gait_map (leg_names_m this ! i))) = swing then [0, 0, 0, 0, 0]
         else [- 1000000, - 1000000, 0, 0, fzmin_m this]) \<and>
      rows_get (arg_ubA args) (5 * i) (5 * i + 4) =
        (if fst (the (gait_map (leg_names_m this ! i))) = swing then [0, 0, 0, 0, 0]
         else [0, 0, 1000000, 1000000, fzmax_m this])"
    if "i < length (leg_names_m this)" for i
    unfolding lbA ubA
    using frictionConeBounds_windows [OF assms(1,2) b20 that, of junk] by blast
  have cone: "length (arg_A args) = 20 * 12 \<and>
      (\<forall>r<20. \<forall>c<12. arg_A args ! (12 * r + c) = C_m this ! r ! c)"
    if C: "is_mat 20 12 (C_m this)"
  proof -
    have room: "length (qp_C_m this) = 20 * 12"
      using assms(3) by (simp add: buffers_sized_def num_constraints_qp_def num_variables_qp_def)
    have cat: "arg_A args = concat (C_m this)"
      unfolding Aarg by (rule frictionConeBounds_constraint_array [OF assms(1,2) b20 C room])
    have Crows: "list_all (\<lambda>row. length row = 12) (C_m this)" "length (C_m this) = 20"
      using C by (simp_all add: is_mat_def)
    have len: "length (arg_A args) = 20 * 12"
      using concat_uniform_length [OF Crows(1)] Crows(2) by (simp add: cat)
    have ent: "arg_A args ! (12 * r + c) = C_m this ! r ! c" if "r < 20" "c < 12" for r c
    proof -
      have "concat (C_m this) ! (r * 12 + c) = C_m this ! r ! c"
        using that Crows by (intro concat_uniform_nth) simp_all
      then show ?thesis by (simp add: cat mult.commute)
    qed
    show ?thesis using len ent by blast
  qed
  have budget: "arg_nWSR args = nWSR_m this" "arg_cputime args = cpu_time_m this"
    by (simp_all add: assms(9) qp_arguments_def formulate_budget)
  show ?thesis
    using cost cone lbA ubA lens blocks budget by blast
qed

theorem qp_cost_and_null_bounds_witness:
  "arg_lb (qp_arguments (snd (formulate example_env (example_controller example_env) example_junk
      example_ft_p example_Rwb (eye 3 3) [0, 0, 0] [0, 0, 0] [0, 0, 0] [1, 0, 0] [0, 1, 0]
      [0, 0, 1] example_gait))) = None \<and>
   arg_ub (qp_arguments (snd (formulate example_env (example_controller example_env) example_junk
      example_ft_p example_Rwb (eye 3 3) [0, 0, 0] [0, 0, 0] [0, 0, 0] [1, 0, 0] [0, 1, 0]
      [0, 0, 1] example_gait))) = None \<and>
   length (arg_H (qp_arguments (snd (formulate example_env (example_controller example_env)
      example_junk example_ft_p example_Rwb (eye 3 3) [0, 0, 0] [0, 0, 0] [0, 0, 0] [1, 0, 0]
      [0, 1, 0] [0, 0, 1] example_gait)))) = 144 \<and>
   arg_H (qp_arguments (snd (formulate example_env (example_controller example_env) example_junk
      example_ft_p example_Rwb (eye 3 3) [0, 0, 0] [0, 0, 0] [0, 0, 0] [1, 0, 0] [0, 1, 0]
      [0, 0, 1] example_gait))) ! 0 = 1401 / 50 \<and>
   arg_A (qp_arguments (snd (formulate example_env (example_controller example_env) example_junk
      example_ft_p example_Rwb (eye 3 3) [0, 0, 0] [0, 0, 0] [0, 0, 0] [1, 0, 0] [0, 1, 0]
      [0, 0, 1] example_gait))) ! 65 = - (6 / 10) \<and>
   rows_get (arg_lbA (qp_arguments (snd (formulate example_env (example_controller example_env)
      example_junk example_ft_p example_Rwb (eye 3 3) [0, 0, 0] [0, 0, 0] [0, 0, 0] [1, 0, 0]
      [0, 1, 0] [0, 0, 1] example_gait)))) 5 9 = [- 1000000, - 1000000, 0, 0, 10] \<and>
   rows_get (arg_ubA (qp_arguments (snd (formulate example_env (example_controller example_env)
      example_junk example_ft_p example_Rwb (eye 3 3) [0, 0, 0] [0, 0, 0] [0, 0, 0] [1, 0, 0]
      [0, 1, 0] [0, 0, 1] example_gait)))) 15 19 = [0, 0, 0, 0, 0]"
proof -
  define acc where "acc = desired_accelerations example_env (example_controller example_env)
      example_Rwb (eye 3 3) [0, 0, 0] [0, 0, 0] [0, 0, 0] [1, 0, 0] [0, 1, 0] [0, 0, 1]"
  define A where "A = fst (dynamics (example_controller example_env) example_junk example_ft_p
      example_Rwb [0, 0, 0] (fst acc) (snd acc))"
  define b where "b = snd (dynamics (example_controller example_env) example_junk example_ft_p
      example_Rwb [0, 0, 0] (fst acc) (snd acc))"
  define args where "args = qp_arguments (snd (formulate example_env
      (example_controller example_env) example_junk example_ft_p example_Rwb (eye 3 3)
      [0, 0, 0] [0, 0, 0] [0, 0, 0] [1, 0, 0] [0, 1, 0] [0, 0, 1] example_gait))"
  note T = qp_cost_and_null_bounds [OF example_hyps(1,2) example_weights(5,3,4)
      acc_def A_def b_def args_def]
  from T have H: "\<forall>i<12. \<forall>j<12. arg_H args ! (12 * i + j) =
      2 * ((\<Sum>k<6. \<Sum>l<6. A ! k ! i * S_m (example_controller example_env) ! k ! l * A ! l ! j)
           + W_m (example_controller example_env) ! i ! j)"
    by blast
  have col: "A ! 0 ! 0 = 1" "A ! 1 ! 0 = 0" "A ! 2 ! 0 = 0" "A ! 3 ! 0 = 0" "A ! 4 ! 0 = - 3"
    "A ! 5 ! 0 = 2"
    unfolding A_def by (rule example_first_column)+
  have W00: "W_m (example_controller example_env) ! 0 ! 0 = 1 / 100"
    by (simp add: example_weights(2) mat_scale_nth [OF is_mat_eye] eye_nth)
  have sum: "(\<Sum>k<6. \<Sum>l<6. A ! k ! 0 * S_m (example_controller example_env) ! k ! l * A ! l ! 0)
      = 14"
    using col by (simp add: below_6 example_weights(1) eye_nth)
  from H [rule_format, of 0 0] have H00: "arg_H args ! 0 = 1401 / 50"
    by (simp add: sum W00)
  have Cex: "C_m (example_controller example_env) = frictionConeConstraint (6 / 10)"
    by (simp add: example_controller_def new_BalanceController_def)
  have Cmat: "is_mat 20 12 (C_m (example_controller example_env))"
    unfolding Cex by (rule is_mat_frictionConeConstraint)
  from T Cmat have cone: "\<forall>r<20. \<forall>c<12.
      arg_A args ! (12 * r + c) = C_m (example_controller example_env) ! r ! c"
    by blast
  have C55: "frictionConeConstraint (6 / 10) ! 5 ! 5 = - (6 / 10)"
    by (simp add: frictionConeConstraint_nth Cf_def)
  from cone [rule_format, of 5 5] C55 have A65: "arg_A args ! 65 = - (6 / 10)"
    by (simp add: Cex)
  from T have blocks: "\<forall>i<length (leg_names_m (example_controller example_env)).
      rows_get (arg_lbA args) (5 * i) (5 * i + 4) =
        (if fst (the (example_gait (leg_names_m (example_controller example_env) ! i))) = swing
         then [0, 0, 0, 0, 0]
         else [- 1000000, - 1000000, 0, 0, fzmin_m (example_controller example_env)]) \<and>
      rows_get (arg_ubA args) (5 * i) (5 * i + 4) =
        (if fst (the (example_gait (leg_names_m (example_controller example_env) ! i))) = swing
         then [0, 0, 0, 0, 0]
         else [0, 0, 1000000, 1000000, fzmax_m (example_controller example_env)])"
    by blast
  have lb1: "rows_get (arg_lbA args) 5 9 = [- 1000000, - 1000000, 0, 0, 10]"
    using blocks [rule_format, of 1] by (simp add: example_fields example_states)
  have ub3: "rows_get (arg_ubA args) 15 19 = [0, 0, 0, 0, 0]"
    using blocks [rule_format, of 3] by (simp add: example_fields example_states)
  from T H00 A65 lb1 ub3 show ?thesis
    unfolding args_def by simp
qed

subsection \<open>Rigid-body dynamics\<close>

text \<open>
  C4. \<open>dynamics\<close> returns a 6 by 12 matrix and a 6-vector. The first three rows of
  the matrix are four identity blocks side by side. The last three rows hold, in the
  columns \<open>3i..3i+2\<close> of foot \<open>i\<close>, the skew-symmetric matrix of \<open>Rwb\<close> applied to column
  \<open>i\<close> of the foot positions. The first three entries of the vector are the mass times the
  sum of the desired acceleration and the gravity vector \<open>(0, 0, -9.81)\<close>, the last three
  are \<open>Rwb Ib Rwb\<^sup>T\<close> applied to the desired angular acceleration. The desired
  acceleration is a 3-vector and the gravity member is the one the constructor sets.
\<close>

theorem dynamics_A_b:
  assumes "length xddot_d = 3" and "g_m this = [0, 0, - 981 / 100]"
  shows "is_mat 6 12 (fst (dynamics this junk ft_p Rwb x xddot_d wdot_d)) \<and>
         length (snd (dynamics this junk ft_p Rwb x xddot_d wdot_d)) = 6 \<and>
         (\<forall>i<4. \<forall>r<3. \<forall>c<3.
            fst (dynamics this junk ft_p Rwb x xddot_d wdot_d) ! r ! (3 * i + c)
              = (if r = c then 1 else 0)) \<and>
         (\<forall>i<4. \<forall>r<3. \<forall>c<3.
            fst (dynamics this junk ft_p Rwb x xddot_d wdot_d) ! (3 + r) ! (3 * i + c)
              = skew_symmetric (mat_vec Rwb (col ft_p i)) ! r ! c) \<and>
         (\<forall>k<3. snd (dynamics this junk ft_p Rwb x xddot_d wdot_d) ! k
              = mass_m this * (xddot_d ! k + [0, 0, - 981 / 100] ! k)) \<and>
         (\<forall>k<3. snd (dynamics this junk ft_p Rwb x xddot_d wdot_d) ! (3 + k)
              = mat_vec (mat_mul (mat_mul Rwb (Ib_m this)) (mat_t Rwb)) wdot_d ! k)"
proof -
  let ?A = "fst (dynamics this junk ft_p Rwb x xddot_d wdot_d)"
  let ?b = "snd (dynamics this junk ft_p Rwb x xddot_d wdot_d)"
  have top: "?A ! r ! (3 * i + c) = (if r = c then 1 else 0)"
    if "i < 4" "r < 3" "c < 3" for i r c
  proof -
    have i: "i = 0 \<or> i = 1 \<or> i = 2 \<or> i = 3" using that by arith
    have lt: "r < 6" "3 * i + c < 12" using that by simp_all
    show ?thesis
      unfolding dynamics_A_nth [OF lt]
      using i that(2,3) by (elim disjE) (simp_all add: eye_nth)
  qed
  have bottom: "?A ! (3 + r) ! (3 * i + c) = skew_symmetric (mat_vec Rwb (col ft_p i)) ! r ! c"
    if "i < 4" "r < 3" "c < 3" for i r c
  proof -
    have i: "i = 0 \<or> i = 1 \<or> i = 2 \<or> i = 3" using that by arith
    have lt: "3 + r < 6" "3 * i + c < 12" using that by simp_all
    show ?thesis
      unfolding dynamics_A_nth [OF lt]
      using i that(2,3) by (elim disjE) simp_all
  qed
  have force: "?b ! k = mass_m this * (xddot_d ! k + [0, 0, - 981 / 100] ! k)" if "k < 3" for k
  proof -
    have "k < 6" using that by simp
    from dynamics_b_nth [OF this]
    have "?b ! k = vec_scale (mass_m this) (vec_add xddot_d (g_m this)) ! k"
      using that by simp
    also have "\<dots> = mass_m this * (xddot_d ! k + g_m this ! k)"
      using that assms by (simp add: vec_scale_def vec_add_def)
    finally show ?thesis using assms by simp
  qed
  have moment: "?b ! (3 + k)
      = mat_vec (mat_mul (mat_mul Rwb (Ib_m this)) (mat_t Rwb)) wdot_d ! k" if "k < 3" for k
  proof -
    have "3 + k < 6" using that by simp
    from dynamics_b_nth [OF this] show ?thesis by simp
  qed
  show ?thesis
    using top bottom force moment by (simp add: is_mat_dynamics length_dynamics)
qed

theorem dynamics_A_b_witness:
  "fst (dynamics (example_controller example_env) example_junk example_ft_p example_Rwb
          [0, 0, 0] [1, 2, 3] [0, 0, 1]) ! 1 ! 4 = 1 \<and>
   fst (dynamics (example_controller example_env) example_junk example_ft_p example_Rwb
          [0, 0, 0] [1, 2, 3] [0, 0, 1]) ! 3 ! 1 = 3 \<and>
   fst (dynamics (example_controller example_env) example_junk example_ft_p example_Rwb
          [0, 0, 0] [1, 2, 3] [0, 0, 1]) ! 5 ! 3 = - 2 \<and>
   snd (dynamics (example_controller example_env) example_junk example_ft_p example_Rwb
          [0, 0, 0] [1, 2, 3] [0, 0, 1]) ! 2 = 10 * (3 + - 981 / 100) \<and>
   snd (dynamics (example_controller example_env) example_junk example_ft_p example_Rwb
          [0, 0, 0] [1, 2, 3] [0, 0, 1]) ! 5 = 1"
proof -
  have g: "g_m (example_controller example_env) = [0, 0, - 981 / 100]"
    "mass_m (example_controller example_env) = 10"
    "Ib_m (example_controller example_env) = eye 3 3"
    by (simp_all add: example_controller_def new_BalanceController_def)
  have len: "length [1, 2, 3 :: real] = 3" by simp
  note T = dynamics_A_b [OF len g(1), of example_junk example_ft_p example_Rwb "[0, 0, 0]"
      "[0, 0, 1]"]
  have sk0: "skew_symmetric (mat_vec example_Rwb (col example_ft_p 0)) ! 0 ! 1 = 3"
    by (simp add: skew_symmetric_def mat_vec_def dot_def col_def example_Rwb_def
        example_ft_p_def)
  have sk1: "skew_symmetric (mat_vec example_Rwb (col example_ft_p 1)) ! 2 ! 0 = - 2"
    by (simp add: skew_symmetric_def mat_vec_def dot_def col_def example_Rwb_def
        example_ft_p_def)
  have iw: "mat_vec (mat_mul (mat_mul example_Rwb (eye 3 3)) (mat_t example_Rwb)) [0, 0, 1] ! 2 = 1"
    by (simp add: mat_vec_def mat_mul_def mat_t_def dot_def col_def n_cols_def eye_3
        example_Rwb_def upt_rec)
  from T have top: "\<forall>i<4. \<forall>r<3. \<forall>c<3.
      fst (dynamics (example_controller example_env) example_junk example_ft_p example_Rwb
             [0, 0, 0] [1, 2, 3] [0, 0, 1]) ! r ! (3 * i + c) = (if r = c then 1 else 0)"
    by blast
  from T have bottom: "\<forall>i<4. \<forall>r<3. \<forall>c<3.
      fst (dynamics (example_controller example_env) example_junk example_ft_p example_Rwb
             [0, 0, 0] [1, 2, 3] [0, 0, 1]) ! (3 + r) ! (3 * i + c)
        = skew_symmetric (mat_vec example_Rwb (col example_ft_p i)) ! r ! c"
    by blast
  from T have force: "\<forall>k<3.
      snd (dynamics (example_controller example_env) example_junk example_ft_p example_Rwb
             [0, 0, 0] [1, 2, 3] [0, 0, 1]) ! k
        = mass_m (example_controller example_env) * ([1, 2, 3] ! k + [0, 0, - 981 / 100] ! k)"
    by blast
  from T have moment: "\<forall>k<3.
      snd (dynamics (example_controller example_env) example_junk example_ft_p example_Rwb
             [0, 0, 0] [1, 2, 3] [0, 0, 1]) ! (3 + k)
        = mat_vec (mat_mul (mat_mul example_Rwb (Ib_m (example_controller example_env)))
            (mat_t example_Rwb)) [0, 0, 1] ! k"
    by blast
  show ?thesis
    using top [rule_format, of 1 1 1] bottom [rule_format, of 0 0 1]
      bottom [rule_format, of 1 2 0] force [rule_format, of 2] moment [rule_format, of 2]
      sk0 sk1 iw
    by (simp add: g)
qed

subsection \<open>Feedback law\<close>

text \<open>
  C5. For 3-vectors of state and gains, a 6-vector of feed-forward gains and a 3-vector
  returned by \<^verbatim>\<open>angleAxisTotal\<close>: the desired linear acceleration is
  \<open>kp_p (x_d - x) + kd_p (xdot_d - xdot)\<close> entry by entry, plus \<open>kff(0) xdot_d(0)\<close> in x,
  \<open>kff(1) xdot_d(1)\<close> in y and \<open>kff(2) mass 9.81\<close> in z; the orientation error is what
  \<^verbatim>\<open>angleAxisTotal\<close> returns for \<open>Rwb_d Rwb\<^sup>T\<close>, one vector and not one angle per axis;
  the desired angular acceleration is \<open>kp_w error + kd_w (w_d - w) + kff(3..5) w_d\<close> entry
  by entry. The law reads no mutable member: the solver, the raw arrays and the log may
  be anything.
\<close>

theorem desired_accelerations_law:
  assumes "length x = 3" "length xdot = 3" "length w = 3"
      and "length x_d = 3" "length xdot_d = 3" "length w_d = 3"
      and "length (kp_p_m this) = 3" "length (kd_p_m this) = 3"
      and "length (kp_w_m this) = 3" "length (kd_w_m this) = 3"
      and "length (kff_m this) = 6"
      and "length (angleAxisTotal env (mat_mul Rwb_d (mat_t Rwb))) = 3"
  shows "fst (desired_accelerations env this Rwb Rwb_d x xdot w x_d xdot_d w_d) =
           [kp_p_m this ! 0 * (x_d ! 0 - x ! 0) + kd_p_m this ! 0 * (xdot_d ! 0 - xdot ! 0)
              + kff_m this ! 0 * xdot_d ! 0,
            kp_p_m this ! 1 * (x_d ! 1 - x ! 1) + kd_p_m this ! 1 * (xdot_d ! 1 - xdot ! 1)
              + kff_m this ! 1 * xdot_d ! 1,
            kp_p_m this ! 2 * (x_d ! 2 - x ! 2) + kd_p_m this ! 2 * (xdot_d ! 2 - xdot ! 2)
              + kff_m this ! 2 * mass_m this * (981 / 100)] \<and>
         snd (desired_accelerations env this Rwb Rwb_d x xdot w x_d xdot_d w_d) =
           [kp_w_m this ! 0 * angleAxisTotal env (mat_mul Rwb_d (mat_t Rwb)) ! 0
              + kd_w_m this ! 0 * (w_d ! 0 - w ! 0) + kff_m this ! 3 * w_d ! 0,
            kp_w_m this ! 1 * angleAxisTotal env (mat_mul Rwb_d (mat_t Rwb)) ! 1
              + kd_w_m this ! 1 * (w_d ! 1 - w ! 1) + kff_m this ! 4 * w_d ! 1,
            kp_w_m this ! 2 * angleAxisTotal env (mat_mul Rwb_d (mat_t Rwb)) ! 2
              + kd_w_m this ! 2 * (w_d ! 2 - w ! 2) + kff_m this ! 5 * w_d ! 2] \<and>
         desired_accelerations env
            (this\<lparr>QPSolver_m := solver, qp_Q_m := bQ, qp_c_m := bc, qp_C_m := bC,
                  qp_lbC_m := blb, qp_ubC_m := bub, ros_errors := msgs\<rparr>)
            Rwb Rwb_d x xdot w x_d xdot_d w_d
           = desired_accelerations env this Rwb Rwb_d x xdot w x_d xdot_d w_d"
proof -
  obtain x0 x1 x2 where x: "x = [x0, x1, x2]" using list3 [OF assms(1)] by blast
  obtain v0 v1 v2 where xdot: "xdot = [v0, v1, v2]" using list3 [OF assms(2)] by blast
  obtain w0 w1 w2 where w: "w = [w0, w1, w2]" using list3 [OF assms(3)] by blast
  obtain xd0 xd1 xd2 where x_d: "x_d = [xd0, xd1, xd2]" using list3 [OF assms(4)] by blast
  obtain vd0 vd1 vd2 where xdot_d: "xdot_d = [vd0, vd1, vd2]" using list3 [OF assms(5)] by blast
  obtain wd0 wd1 wd2 where w_d: "w_d = [wd0, wd1, wd2]" using list3 [OF assms(6)] by blast
  obtain p0 p1 p2 where kp_p: "kp_p_m this = [p0, p1, p2]" using list3 [OF assms(7)] by blast
  obtain d0 d1 d2 where kd_p: "kd_p_m this = [d0, d1, d2]" using list3 [OF assms(8)] by blast
  obtain q0 q1 q2 where kp_w: "kp_w_m this = [q0, q1, q2]" using list3 [OF assms(9)] by blast
  obtain e0 e1 e2 where kd_w: "kd_w_m this = [e0, e1, e2]" using list3 [OF assms(10)] by blast
  obtain f0 f1 f2 f3 f4 f5 where kff: "kff_m this = [f0, f1, f2, f3, f4, f5]"
    using list6 [OF assms(11)] by blast
  obtain a0 a1 a2 where aa: "angleAxisTotal env (mat_mul Rwb_d (mat_t Rwb)) = [a0, a1, a2]"
    using list3 [OF assms(12)] by blast
  have rows: "rows_get [f0, f1, f2, f3, f4, f5] 3 5 = [f3, f4, f5]"
    by (simp add: rows_get_def upt_conv_Cons)
  show ?thesis
    by (simp add: desired_accelerations_def Let_def x xdot w x_d xdot_d w_d kp_p kd_p kp_w kd_w
        kff aa rows vec_add_def vec_sub_def schur_def)
qed

theorem desired_accelerations_law_witness:
  "fst (desired_accelerations example_env (example_controller example_env) example_Rwb (eye 3 3)
          [0, 0, 0] [0, 0, 0] [0, 0, 0] [1, 0, 0] [0, 1, 0] [0, 0, 1]) = [2, 4, 981 / 10] \<and>
   snd (desired_accelerations example_env (example_controller example_env) example_Rwb (eye 3 3)
          [0, 0, 0] [0, 0, 0] [0, 0, 0] [1, 0, 0] [0, 1, 0] [0, 0, 1]) = [0, 0, - 2]"
  using desired_accelerations_law [of "[0, 0, 0]" "[0, 0, 0]" "[0, 0, 0]" "[1, 0, 0]" "[0, 1, 0]"
      "[0, 0, 1]" "example_controller example_env" example_env "eye 3 3" example_Rwb]
  by (simp add: example_gains example_orientation_error)

subsection \<open>Solver failure\<close>

text \<open>
  C6. When the bound builder has returned normally and the solver fails, \<open>control\<close>
  returns the zero vector of twelve entries as a normal result: a cold \<^verbatim>\<open>init\<close> that does
  not report success, a \<^verbatim>\<open>hotstart\<close> that does not report success, or a solver that
  does not report the problem solved. The result is the same for every \<open>Rwb\<close>, so the
  frame change of lines 194-203 is not applied to it, and one error message is printed.
\<close>

theorem solver_failure_returns_zero:
  assumes "fst (frictionConeBounds this junk gait_map) = Inr ()"
      and "(\<not> isInitialised env (QPSolver_m this) \<and>
              fst (init env (QPSolver_m this) (qp_arguments (snd (formulate env this junk ft_p Rwb
                Rwb_d x xdot w x_d xdot_d w_d gait_map)))) \<noteq> SUCCESSFUL_RETURN) \<or>
           (isInitialised env (QPSolver_m this) \<and>
              fst (hotstart env (QPSolver_m this) (qp_arguments (snd (formulate env this junk ft_p
                Rwb Rwb_d x xdot w x_d xdot_d w_d gait_map)))) \<noteq> SUCCESSFUL_RETURN) \<or>
           \<not> isSolved env (snd (solver_call env (snd (formulate env this junk ft_p Rwb Rwb_d
                x xdot w x_d xdot_d w_d gait_map))))"
  shows "fst (control env this junk ft_p Rwb Rwb_d x xdot w x_d xdot_d w_d gait_map)
           = Inr [0, 0, 0, 0, 0, 0, 0, 0, 0, 0, 0, 0] \<and>
         length (ros_errors
           (snd (control env this junk ft_p Rwb Rwb_d x xdot w x_d xdot_d w_d gait_map)))
           = Suc (length (ros_errors this))"
proof -
  let ?this2 = "snd (formulate env this junk ft_p Rwb Rwb_d x xdot w x_d xdot_d w_d gait_map)"
  have ok: "fst (formulate env this junk ft_p Rwb Rwb_d x xdot w x_d xdot_d w_d gait_map) = Inr ()"
    using assms(1) by (simp add: formulate_fst)
  have s: "QPSolver_m ?this2 = QPSolver_m this" by (rule formulate_QPSolver_m)
  show ?thesis
  proof (cases "fst (solver_call env ?this2) = SUCCESSFUL_RETURN")
    case True
    with assms(2) have "\<not> isSolved env (snd (solver_call env ?this2))"
      by (auto simp: solver_call_def s split: if_splits)
    from control_not_solved [OF ok True this] show ?thesis by (simp add: zeros_12)
  next
    case False
    from control_solver_failed [OF ok False] show ?thesis by (simp add: zeros_12)
  qed
qed

theorem solver_failure_returns_zero_witness:
  "fst (control (stub_environment (RET_FAILED 1) SUCCESSFUL_RETURN True example_solution)
          (example_controller
             (stub_environment (RET_FAILED 1) SUCCESSFUL_RETURN True example_solution))
          example_junk example_ft_p example_Rwb (eye 3 3)
          [0, 0, 0] [0, 0, 0] [0, 0, 0] [1, 0, 0] [0, 1, 0] [0, 0, 1] example_gait)
     = Inr [0, 0, 0, 0, 0, 0, 0, 0, 0, 0, 0, 0] \<and>
   fst (control (stub_environment SUCCESSFUL_RETURN (RET_FAILED 2) True example_solution)
          ((example_controller
             (stub_environment SUCCESSFUL_RETURN (RET_FAILED 2) True example_solution))
             \<lparr>QPSolver_m := True\<rparr>)
          example_junk example_ft_p example_Rwb (eye 3 3)
          [0, 0, 0] [0, 0, 0] [0, 0, 0] [1, 0, 0] [0, 1, 0] [0, 0, 1] example_gait)
     = Inr [0, 0, 0, 0, 0, 0, 0, 0, 0, 0, 0, 0] \<and>
   fst (control (stub_environment SUCCESSFUL_RETURN SUCCESSFUL_RETURN False example_solution)
          (example_controller
             (stub_environment SUCCESSFUL_RETURN SUCCESSFUL_RETURN False example_solution))
          example_junk example_ft_p example_Rwb (eye 3 3)
          [0, 0, 0] [0, 0, 0] [0, 0, 0] [1, 0, 0] [0, 1, 0] [0, 0, 1] example_gait)
     = Inr [0, 0, 0, 0, 0, 0, 0, 0, 0, 0, 0, 0]"
proof -
  let ?e1 = "stub_environment (RET_FAILED 1) SUCCESSFUL_RETURN True example_solution"
  let ?e2 = "stub_environment SUCCESSFUL_RETURN (RET_FAILED 2) True example_solution"
  let ?e3 = "stub_environment SUCCESSFUL_RETURN SUCCESSFUL_RETURN False example_solution"
  have b2: "fst (frictionConeBounds ((example_controller ?e2)\<lparr>QPSolver_m := True\<rparr>) example_junk
      example_gait) = Inr ()"
    using example_bounds_ok [of ?e2]
    by (simp add: frictionConeBounds_def Let_def split: sum.splits prod.splits)
  have "fst (control ?e1 (example_controller ?e1) example_junk example_ft_p example_Rwb (eye 3 3)
          [0, 0, 0] [0, 0, 0] [0, 0, 0] [1, 0, 0] [0, 1, 0] [0, 0, 1] example_gait)
     = Inr [0, 0, 0, 0, 0, 0, 0, 0, 0, 0, 0, 0]"
    using solver_failure_returns_zero [OF example_bounds_ok, of ?e1 ?e1 example_ft_p example_Rwb
        "eye 3 3" "[0, 0, 0]" "[0, 0, 0]" "[0, 0, 0]" "[1, 0, 0]" "[0, 1, 0]" "[0, 0, 1]"]
    by (simp add: example_solver) (simp add: stub_environment_def)
  moreover have "fst (control ?e2 ((example_controller ?e2)\<lparr>QPSolver_m := True\<rparr>) example_junk
          example_ft_p example_Rwb (eye 3 3)
          [0, 0, 0] [0, 0, 0] [0, 0, 0] [1, 0, 0] [0, 1, 0] [0, 0, 1] example_gait)
     = Inr [0, 0, 0, 0, 0, 0, 0, 0, 0, 0, 0, 0]"
    using solver_failure_returns_zero [OF b2, of ?e2 example_ft_p example_Rwb
        "eye 3 3" "[0, 0, 0]" "[0, 0, 0]" "[0, 0, 0]" "[1, 0, 0]" "[0, 1, 0]" "[0, 0, 1]"]
    by (simp add: stub_environment_def)
  moreover have "fst (control ?e3 (example_controller ?e3) example_junk example_ft_p example_Rwb
          (eye 3 3) [0, 0, 0] [0, 0, 0] [0, 0, 0] [1, 0, 0] [0, 1, 0] [0, 0, 1] example_gait)
     = Inr [0, 0, 0, 0, 0, 0, 0, 0, 0, 0, 0, 0]"
    using solver_failure_returns_zero [OF example_bounds_ok, of ?e3 ?e3 example_ft_p example_Rwb
        "eye 3 3" "[0, 0, 0]" "[0, 0, 0]" "[0, 0, 0]" "[1, 0, 0]" "[0, 1, 0]" "[0, 0, 1]"]
    by (simp add: stub_environment_def)
  ultimately show ?thesis by blast
qed

subsection \<open>Frame change of the solution\<close>

text \<open>
  C7. When the bound builder has returned normally, the solver call reports success and
  the problem is solved, \<open>control\<close> returns the frame change of the first twelve cells
  \<open>fw\<close> of the primal solution: for every foot \<open>i\<close> the entries \<open>3i..3i+2\<close> of the result
  are minus the transpose of \<open>Rwb\<close> applied to the entries \<open>3i..3i+2\<close> of \<open>fw\<close>, for a 3 by 3
  \<open>Rwb\<close>. If moreover \<open>Rwb Rwb\<^sup>T\<close> is the identity, each foot's block of the result has the
  Euclidean norm of the same block of \<open>fw\<close>.
\<close>

theorem solved_command_rotated_negated:
  assumes "fst (frictionConeBounds this junk gait_map) = Inr ()"
      and "fst (solver_call env (snd (formulate env this junk ft_p Rwb Rwb_d x xdot w x_d xdot_d
             w_d gait_map))) = SUCCESSFUL_RETURN"
      and "isSolved env (snd (solver_call env (snd (formulate env this junk ft_p Rwb Rwb_d
             x xdot w x_d xdot_d w_d gait_map))))"
      and "is_mat 3 3 Rwb"
      and "fw = copy_from_real_t (getPrimalSolution env (snd (solver_call env (snd (formulate env
             this junk ft_p Rwb Rwb_d x xdot w x_d xdot_d w_d gait_map))))) 12"
  shows "fst (control env this junk ft_p Rwb Rwb_d x xdot w x_d xdot_d w_d gait_map)
           = Inr (body_frame_forces junk Rwb fw) \<and>
         length (body_frame_forces junk Rwb fw) = 12 \<and>
         (\<forall>i<4. rows_get (body_frame_forces junk Rwb fw) (3 * i) (3 * i + 2)
                  = vec_scale (- 1) (mat_vec (mat_t Rwb) (rows_get fw (3 * i) (3 * i + 2)))) \<and>
         (\<forall>i<4. \<forall>c<3. body_frame_forces junk Rwb fw ! (3 * i + c)
                  = - (\<Sum>r<3. Rwb ! r ! c * fw ! (3 * i + r))) \<and>
         (mat_mul Rwb (mat_t Rwb) = eye 3 3 \<longrightarrow>
            (\<forall>i<4. vec_norm (rows_get (body_frame_forces junk Rwb fw) (3 * i) (3 * i + 2))
                     = vec_norm (rows_get fw (3 * i) (3 * i + 2))))"
proof -
  have ok: "fst (formulate env this junk ft_p Rwb Rwb_d x xdot w x_d xdot_d w_d gait_map) = Inr ()"
    using assms(1) by (simp add: formulate_fst)
  have out: "fst (control env this junk ft_p Rwb Rwb_d x xdot w x_d xdot_d w_d gait_map)
           = Inr (body_frame_forces junk Rwb fw)"
    using control_solved [OF ok assms(2,3)] assms(5) by (simp add: num_variables_qp_def)
  have norm: "vec_norm (rows_get (body_frame_forces junk Rwb fw) (3 * i) (3 * i + 2))
                     = vec_norm (rows_get fw (3 * i) (3 * i + 2))"
    if "mat_mul Rwb (mat_t Rwb) = eye 3 3" "i < 4" for i
  proof -
    have "length (rows_get fw (3 * i) (3 * i + 2)) = 3" by (simp add: rows_get_length)
    from rotation_preserves_dot [OF assms(4) that(1) this]
    show ?thesis
      unfolding vec_norm_def body_frame_forces_block [OF that(2) assms(4)] by simp
  qed
  show ?thesis
    using out norm body_frame_forces_block [OF _ assms(4), of _ junk fw]
      body_frame_forces_entries [OF _ _ assms(4), of _ _ junk fw]
    by (simp add: body_frame_forces_length)
qed

theorem solved_command_rotated_negated_witness:
  "fst (control example_env (example_controller example_env) example_junk example_ft_p
          example_Rwb (eye 3 3) [0, 0, 0] [0, 0, 0] [0, 0, 0] [1, 0, 0] [0, 1, 0] [0, 0, 1]
          example_gait)
     = Inr [- 2, 1, - 3, - 5, 4, - 6, - 8, 7, - 9, - 11, 10, - 12] \<and>
   vec_norm (rows_get [- 2, 1, - 3, - 5, 4, - 6, - 8, 7, - 9, - 11, 10, - 12] 3 5)
     = vec_norm (rows_get example_solution 3 5)"
proof -
  let ?call = "solver_call example_env (snd (formulate example_env
      (example_controller example_env) example_junk example_ft_p example_Rwb (eye 3 3)
      [0, 0, 0] [0, 0, 0] [0, 0, 0] [1, 0, 0] [0, 1, 0] [0, 0, 1] example_gait))"
  have call: "fst ?call = SUCCESSFUL_RETURN" "isSolved example_env (snd ?call)"
    by (simp_all add: solver_call_def example_env_def stub_environment_def example_solution_def)
  have fw: "example_solution = copy_from_real_t (getPrimalSolution example_env (snd ?call)) 12"
    by (simp add: example_env_def stub_environment_def copy_from_real_t_def
        example_solution_def upt_rec)
  note T = solved_command_rotated_negated [OF example_bounds_ok call
      example_Rwb_rotation(1) fw]
  from T have "\<forall>i<4. vec_norm (rows_get (body_frame_forces example_junk example_Rwb
      example_solution) (3 * i) (3 * i + 2)) = vec_norm (rows_get example_solution (3 * i)
      (3 * i + 2))"
    using example_Rwb_rotation(2) by blast
  from this [rule_format, of 1] T show ?thesis
    by (simp add: example_body_frame)
qed

subsection \<open>A swing block admits only the zero force\<close>

text \<open>
  C8. For every force \<open>(fx, fy, fz)\<close> and every friction coefficient, if the five rows of
  one foot's block are all zero at the force, as the collapsed bounds of a swing leg
  demand, then the force is zero.
\<close>

theorem swing_block_forces_zero:
  "mat_vec (Cf mu) [fx, fy, fz] = [0, 0, 0, 0, 0] \<Longrightarrow> fx = 0 \<and> fy = 0 \<and> fz = 0"
  by (simp add: mat_vec_def Cf_def dot_def)

theorem swing_block_forces_zero_witness:
  "mat_vec (Cf (6 / 10)) [0, 0, 0] = [0, 0, 0, 0, 0] \<and> (0::real) = 0"
  using swing_block_forces_zero [of "6 / 10" 0 0 0]
  by (simp add: mat_vec_def Cf_def dot_def)

subsection \<open>A leg missing from the schedule\<close>

text \<open>
  C9. When the schedule lacks an entry for a configured leg, the lookup's own
  \<^verbatim>\<open>std::out_of_range\<close> leaves \<open>frictionConeBounds\<close>, and with it \<open>control\<close>, which calls
  the builder first. No state is defaulted, and the controller is as it was before the
  call: the raw bound arrays are not written. The configuration has at most four leg
  names, as in C1.
\<close>

theorem missing_leg_surfaces_out_of_range:
  assumes "\<not> list_all (\<lambda>leg. gait_map leg \<noteq> None) (leg_names_m this)"
      and "length (leg_names_m this) \<le> 4"
  shows "frictionConeBounds this junk gait_map = (Inl OutOfRange, this) \<and>
         control env this junk ft_p Rwb Rwb_d x xdot w x_d xdot_d w_d gait_map
           = (Inl OutOfRange, this)"
proof -
  have "0 + length (leg_names_m this) \<le> 4" using assms(2) by simp
  then have "bounds_loop [- 1000000, - 1000000, 0, 0, fzmin_m this]
      [0, 0, 1000000, 1000000, fzmax_m this] gait_map (leg_names_m this) (5 * 0) (5 * 0 + 4)
      (uninitialised_vec (mem_lbC junk) num_constraints_qp)
      (uninitialised_vec (mem_ubC junk) num_constraints_qp) = Inl OutOfRange"
    by (intro bounds_loop_missing assms(1))
       (simp_all add: uninitialised_vec_def num_constraints_qp_def)
  then have "frictionConeBounds this junk gait_map = (Inl OutOfRange, this)"
    by (simp add: frictionConeBounds_def Let_def)
  then show ?thesis by (simp add: control_def)
qed

theorem missing_leg_surfaces_out_of_range_witness:
  "example_gait_missing ''FR'' = None \<and>
   frictionConeBounds (example_controller example_env) example_junk example_gait_missing
     = (Inl OutOfRange, example_controller example_env) \<and>
   control example_env (example_controller example_env) example_junk
       example_ft_p (eye 3 3) (eye 3 3) [0, 0, 0] [0, 0, 0] [0, 0, 0] [0, 0, 0] [0, 0, 0] [0, 0, 0]
       example_gait_missing
     = (Inl OutOfRange, example_controller example_env)"
proof -
  have "\<not> list_all (\<lambda>leg. example_gait_missing leg \<noteq> None)
          (leg_names_m (example_controller example_env))"
    by (simp add: example_fields example_gait_missing_def)
  note T = missing_leg_surfaces_out_of_range [OF this example_hyps(2) [where env = example_env],
      where junk = example_junk and env = example_env and ft_p = example_ft_p
        and Rwb = "eye 3 3" and Rwb_d = "eye 3 3" and x = "[0, 0, 0]" and xdot = "[0, 0, 0]"
        and w = "[0, 0, 0]" and x_d = "[0, 0, 0]" and xdot_d = "[0, 0, 0]" and w_d = "[0, 0, 0]"]
  have "example_gait_missing ''FR'' = None"
    by (simp add: example_gait_missing_def)
  with T show ?thesis by blast
qed

subsection \<open>Every state but swing is stance\<close>

text \<open>
  C10. The bound builder tests for swing and nothing else. Under the hypotheses of C1,
  every leg whose state is not swing (stance, or any value outside the documented pair)
  gets the stance bounds.
\<close>

theorem frictionConeBounds_not_swing:
  assumes "list_all (\<lambda>leg. gait_map leg \<noteq> None) (leg_names_m this)"
      and "length (leg_names_m this) \<le> 4"
      and "length (qp_lbC_m this) = 20" and "length (qp_ubC_m this) = 20"
  shows "\<forall>i<length (leg_names_m this).
           fst (the (gait_map (leg_names_m this ! i))) \<noteq> swing \<longrightarrow>
             rows_get (qp_lbC_m (snd (frictionConeBounds this junk gait_map))) (5 * i) (5 * i + 4)
               = [- 1000000, - 1000000, 0, 0, fzmin_m this] \<and>
             rows_get (qp_ubC_m (snd (frictionConeBounds this junk gait_map))) (5 * i) (5 * i + 4)
               = [0, 0, 1000000, 1000000, fzmax_m this]"
  using frictionConeBounds_windows [OF assms, of _ junk]
  by simp

theorem frictionConeBounds_not_swing_witness:
  "fst (the (example_gait (leg_names_m (example_controller example_env) ! 0))) = unlisted 2 \<and>
   rows_get (qp_lbC_m (snd (frictionConeBounds (example_controller example_env) example_junk
       example_gait))) 0 4 = [- 1000000, - 1000000, 0, 0, 10] \<and>
   rows_get (qp_ubC_m (snd (frictionConeBounds (example_controller example_env) example_junk
       example_gait))) 0 4 = [0, 0, 1000000, 1000000, 500]"
  using frictionConeBounds_not_swing [OF example_hyps [where env = example_env], of example_junk, rule_format, of 0]
  by (simp add: example_fields example_states)

end
